theory Spec2Isabelle
  imports Complex_Main
begin

section \<open>Freediving buoyancy model and lead-weight optimiser\<close>

text \<open>
  A shallow embedding of \<^verbatim>\<open>freediving.py\<close> and \<^verbatim>\<open>diving_lead_optimizer.py\<close>.
  Python and numpy floating-point numbers are modelled as exact reals where a property is
  a formula the code evaluates or an invariant that rounding preserves; where rounding
  decides a property, the force model is also given operation by operation in IEEE 754
  double precision. Infinities and NaN are outside the model, except where the source
  divides by a quantity that may be zero, which is written out as a separate outcome.
  Exceptions are values of type \<open>error\<close> on the left of a sum.
\<close>

subsection \<open>Data model\<close>

datatype error = ZeroDivisionError | IndexError | KeyError | ValueError | LinAlgError

text \<open>
  The dictionary \<^verbatim>\<open>params["lung_volumes"]\<close> has the keys \<^verbatim>\<open>full_lung\<close>,
  \<^verbatim>\<open>medium_lung\<close> and \<^verbatim>\<open>empty_lung\<close> (the labels built in lines 29-31 of
  \<^verbatim>\<open>freediving.py\<close> read all three) and is iterated in that order.
\<close>

datatype lung_condition = full_lung | medium_lung | empty_lung

text \<open>
  The parameter dictionary. The key \<^verbatim>\<open>seawater_density\<close> is absent from the
  dictionary a caller builds (\<open>None\<close>) and is stored by \<^verbatim>\<open>plot_net_force_kgf\<close>.
\<close>

record params =
  mass :: real
  height :: real
  body_fat_percentage :: real
  lung_volumes :: "lung_condition \<Rightarrow> real"
  residual_volume :: real
  wetsuit_mass :: real
  wetsuit_density :: real
  snorkel_mask_volume :: real
  lead_weight :: real
  water_type :: string
  temperature :: real
  wetsuit_compressibility_factor :: real
  x_limits :: "real \<times> real"
  y_limits :: "real \<times> real"
  seawater_density :: "real option"

text \<open>The example parameters at the end of \<^verbatim>\<open>freediving.py\<close>.\<close>

definition example_lung_volumes :: "lung_condition \<Rightarrow> real" where
  "example_lung_volumes c = (case c of full_lung \<Rightarrow> 6.5 | medium_lung \<Rightarrow> 4.0 | empty_lung \<Rightarrow> 1.5)"

definition example_params :: params where
  "example_params =
     \<lparr> mass = 70, height = 1.84, body_fat_percentage = 0.20,
       lung_volumes = example_lung_volumes,
       residual_volume = 1.5 * 1000,
       wetsuit_mass = 1.24, wetsuit_density = 0.24,
       snorkel_mask_volume = 150, lead_weight = 0.0,
       water_type = ''sea'', temperature = 22,
       wetsuit_compressibility_factor = 1.6,
       x_limits = (-4, 8), y_limits = (50, -10),
       seawater_density = None \<rparr>"

subsection \<open>Density model\<close>

definition calculate_seawater_density :: "real \<Rightarrow> real \<Rightarrow> real" where
  "calculate_seawater_density salinity temp = 1.000 + 0.0008 * salinity - 0.0003 * temp"

definition get_salinity_and_density :: "string \<Rightarrow> real \<Rightarrow> real" where
  "get_salinity_and_density wtype temp =
     (let salinity = (if wtype = ''sea'' then 35 else 0)
      in calculate_seawater_density salinity temp * 1000)"

subsection \<open>Force model\<close>

text \<open>
  The body of the loop over \<^verbatim>\<open>depths\<close> (lines 42-73). The quotient by
  \<^verbatim>\<open>params["wetsuit_density"]\<close> is a quotient of Python floats and raises
  \<^verbatim>\<open>ZeroDivisionError\<close> at zero; every other divisor is a non-zero constant or, for
  \<open>d \<ge> 0\<close>, at least one. The density is read from the dictionary, where line 21 stored it.
\<close>

definition net_force_kgf :: "params \<Rightarrow> real \<Rightarrow> real \<Rightarrow> real \<Rightarrow> error + real" where
  "net_force_kgf p wetsuit_compressibility lung_volume d =
     (if d < 0 then Inr (- mass p - wetsuit_mass p)
      else
        let lung_volume_cm3 = lung_volume * 1000;
            rv = residual_volume p;
            lung_volume_at_depth = rv + (lung_volume_cm3 - rv) / (1 + d / 10);
            volume_fat = mass p * body_fat_percentage p * 1000 / 0.9;
            volume_lean = (mass p * (1 - body_fat_percentage p)) * 1000 / 1.1
        in if wetsuit_density p = 0 then Inl ZeroDivisionError
           else
             let wetsuit_volume_surface = (wetsuit_mass p * 1000) / wetsuit_density p;
                 wetsuit_volume_at_depth =
                   wetsuit_volume_surface * (1 - wetsuit_compressibility * d);
                 snorkel_volume = snorkel_mask_volume p;
                 weight_volume = lead_weight p / 11340;
                 total_displacement_volume =
                   (volume_fat / (1 + d * 0.1 / 100)
                    + volume_lean / (1 + d * 0.05 / 100)
                    + lung_volume_at_depth
                    + wetsuit_volume_at_depth
                    + snorkel_volume
                    + weight_volume * 1000000) * (1 / 1000000)
             in case seawater_density p of
                  None \<Rightarrow> Inl KeyError
                | Some rho \<Rightarrow>
                    let F_buoyancy = total_displacement_volume * rho * 9.81;
                        F_weight = (mass p + wetsuit_mass p + lead_weight p) * 9.81
                    in Inr ((F_buoyancy - F_weight) / 9.81))"

text \<open>Line 21: the resolved density is written into the caller's dictionary.\<close>

definition store_density :: "params \<Rightarrow> params" where
  "store_density p =
     p\<lparr>seawater_density := Some (get_salinity_and_density (water_type p) (temperature p))\<rparr>"

text \<open>
  The Force Model of one sample: the loop body on the dictionary as
  \<^verbatim>\<open>plot_net_force_kgf\<close> has prepared it, for the lung volume of one condition.
\<close>

definition force_model :: "params \<Rightarrow> lung_condition \<Rightarrow> real \<Rightarrow> error + real" where
  "force_model p c d =
     net_force_kgf (store_density p) (wetsuit_compressibility_factor p / 100)
       (lung_volumes p c) d"

subsection \<open>The force model in double precision\<close>

text \<open>
  Python floats and numpy's \<^verbatim>\<open>float64\<close> are IEEE 754 binary64 numbers: every
  arithmetic operation returns the exact result rounded to the nearest number with a
  53-bit significand, ties to the even significand. The model below holds for values in
  the normal range (no overflow, no subnormal numbers), which is where the force model
  computes.
\<close>

definition pow2 :: "int \<Rightarrow> real" where
  "pow2 e = (if 0 \<le> e then 2 ^ nat e else 1 / 2 ^ nat (- e))"

text \<open>
  The binary exponent \<open>e\<close> of a non-zero number, \<open>2 ^ e \<le> \<bar>x\<bar> < 2 ^ (e + 1)\<close>, found by
  halving or doubling; the fuel covers every exponent of binary64.
\<close>

fun scale_down :: "nat \<Rightarrow> real \<Rightarrow> int \<Rightarrow> int" where
  "scale_down 0 x e = e"
| "scale_down (Suc n) x e = (if x < 2 then e else scale_down n (x / 2) (e + 1))"

fun scale_up :: "nat \<Rightarrow> real \<Rightarrow> int \<Rightarrow> int" where
  "scale_up 0 x e = e"
| "scale_up (Suc n) x e = (if 1 \<le> x then e else scale_up n (x * 2) (e - 1))"

definition binexp :: "real \<Rightarrow> int" where
  "binexp x = (if 1 \<le> \<bar>x\<bar> then scale_down 1100 \<bar>x\<bar> 0 else scale_up 1100 \<bar>x\<bar> 0)"

text \<open>Rounding to the nearest integer, ties to the even one.\<close>

definition round_even :: "real \<Rightarrow> int" where
  "round_even y =
     (let f = \<lfloor>y\<rfloor>; r = y - real_of_int f
      in if r < 1 / 2 then f else if 1 / 2 < r then f + 1 else if even f then f else f + 1)"

text \<open>Rounding to binary64: to a multiple of the unit in the last place of \<open>x\<close>.\<close>

definition rnd :: "real \<Rightarrow> real" where
  "rnd x = (if x = 0 then 0
            else let u = pow2 (binexp x - 52) in real_of_int (round_even (x / u)) * u)"

text \<open>A decimal literal of the source, and the four operations.\<close>

definition f64 :: "real \<Rightarrow> real" where
  "f64 x = rnd x"

definition fadd :: "real \<Rightarrow> real \<Rightarrow> real" where
  "fadd x y = rnd (x + y)"

definition fsub :: "real \<Rightarrow> real \<Rightarrow> real" where
  "fsub x y = rnd (x - y)"

definition fmul :: "real \<Rightarrow> real \<Rightarrow> real" where
  "fmul x y = rnd (x * y)"

definition fdiv :: "real \<Rightarrow> real \<Rightarrow> real" where
  "fdiv x y = rnd (x / y)"

text \<open>The example parameters as the doubles Python reads from their literals.\<close>

definition example_params_f64 :: params where
  "example_params_f64 =
     \<lparr> mass = 70, height = f64 1.84, body_fat_percentage = f64 0.20,
       lung_volumes = example_lung_volumes,
       residual_volume = fmul (f64 1.5) 1000,
       wetsuit_mass = f64 1.24, wetsuit_density = f64 0.24,
       snorkel_mask_volume = 150, lead_weight = 0,
       water_type = ''sea'', temperature = 22,
       wetsuit_compressibility_factor = f64 1.6,
       x_limits = (-4, 8), y_limits = (50, -10),
       seawater_density = None \<rparr>"

text \<open>Lines 4-12 of \<^verbatim>\<open>freediving.py\<close>, operation by operation.\<close>

definition calculate_seawater_density_f64 :: "real \<Rightarrow> real \<Rightarrow> real" where
  "calculate_seawater_density_f64 salinity temp =
     fsub (fadd (f64 1.000) (fmul (f64 0.0008) salinity)) (fmul (f64 0.0003) temp)"

definition get_salinity_and_density_f64 :: "string \<Rightarrow> real \<Rightarrow> real" where
  "get_salinity_and_density_f64 wtype temp =
     (let salinity = (if wtype = ''sea'' then 35 else 0)
      in fmul (calculate_seawater_density_f64 salinity temp) 1000)"

definition store_density_f64 :: "params \<Rightarrow> params" where
  "store_density_f64 p =
     p\<lparr>seawater_density :=
         Some (get_salinity_and_density_f64 (water_type p) (temperature p))\<rparr>"

text \<open>
  Lines 42-73 of \<^verbatim>\<open>freediving.py\<close>, operation by operation in Python's order of
  evaluation (\<^verbatim>\<open>*\<close> and \<^verbatim>\<open>/\<close> bind tighter than \<^verbatim>\<open>+\<close> and \<^verbatim>\<open>-\<close>, all associate
  to the left).
\<close>

definition net_force_kgf_f64 :: "params \<Rightarrow> real \<Rightarrow> real \<Rightarrow> real \<Rightarrow> error + real" where
  "net_force_kgf_f64 p wetsuit_compressibility lung_volume d =
     (if d < 0 then Inr (fsub (- mass p) (wetsuit_mass p))
      else
        let lung_volume_cm3 = fmul lung_volume 1000;
            rv = residual_volume p;
            lung_volume_at_depth =
              fadd rv (fdiv (fsub lung_volume_cm3 rv) (fadd 1 (fdiv d 10)));
            volume_fat =
              fdiv (fmul (fmul (mass p) (body_fat_percentage p)) 1000) (f64 0.9);
            volume_lean =
              fdiv (fmul (fmul (mass p) (fsub 1 (body_fat_percentage p))) 1000) (f64 1.1)
        in if wetsuit_density p = 0 then Inl ZeroDivisionError
           else
             let wetsuit_volume_surface = fdiv (fmul (wetsuit_mass p) 1000) (wetsuit_density p);
                 wetsuit_volume_at_depth =
                   fmul wetsuit_volume_surface (fsub 1 (fmul wetsuit_compressibility d));
                 snorkel_volume = snorkel_mask_volume p;
                 weight_volume = fdiv (lead_weight p) 11340;
                 total_displacement_volume =
                   fmul
                     (fadd
                       (fadd
                         (fadd
                           (fadd
                             (fadd (fdiv volume_fat (fadd 1 (fdiv (fmul d (f64 0.1)) 100)))
                                   (fdiv volume_lean (fadd 1 (fdiv (fmul d (f64 0.05)) 100))))
                             lung_volume_at_depth)
                           wetsuit_volume_at_depth)
                         snorkel_volume)
                       (fmul weight_volume 1000000))
                     (f64 (1 / 1000000))
             in case seawater_density p of
                  None \<Rightarrow> Inl KeyError
                | Some rho \<Rightarrow>
                    let F_buoyancy = fmul (fmul total_displacement_volume rho) (f64 9.81);
                        F_weight =
                          fmul (fadd (fadd (mass p) (wetsuit_mass p)) (lead_weight p)) (f64 9.81)
                    in Inr (fdiv (fsub F_buoyancy F_weight) (f64 9.81)))"

definition force_model_f64 :: "params \<Rightarrow> lung_condition \<Rightarrow> real \<Rightarrow> error + real" where
  "force_model_f64 p c d =
     net_force_kgf_f64 (store_density_f64 p) (fdiv (wetsuit_compressibility_factor p) 100)
       (lung_volumes p c) d"

subsection \<open>Force profile generator\<close>

text \<open>
  \<^verbatim>\<open>np.linspace(start, stop, num)\<close> for \<open>num \<ge> 2\<close>: \<open>num\<close> evenly spaced samples,
  the first \<open>start\<close> and the last \<open>stop\<close>.
\<close>

definition linspace :: "real \<Rightarrow> real \<Rightarrow> nat \<Rightarrow> real list" where
  "linspace start stop num =
     map (\<lambda>i. start + real i * ((stop - start) / real (num - 1))) [0..<num]"

text \<open>The loop \<^verbatim>\<open>for d in depths\<close>: the first sample that raises ends it.\<close>

fun net_forces_loop :: "params \<Rightarrow> real \<Rightarrow> real \<Rightarrow> real list \<Rightarrow> error + real list" where
  "net_forces_loop p wcf lung_volume [] = Inr []"
| "net_forces_loop p wcf lung_volume (d # ds) =
     (case net_force_kgf p wcf lung_volume d of
        Inl e \<Rightarrow> Inl e
      | Inr f \<Rightarrow>
          (case net_forces_loop p wcf lung_volume ds of
             Inl e \<Rightarrow> Inl e
           | Inr fs \<Rightarrow> Inr (f # fs)))"

text \<open>The loop over the items of \<^verbatim>\<open>params["lung_volumes"]\<close>, in dictionary order.\<close>

definition net_force_curves ::
  "params \<Rightarrow> real \<Rightarrow> real list \<Rightarrow> error + (lung_condition \<Rightarrow> real list)" where
  "net_force_curves p wcf depths =
     (case net_forces_loop p wcf (lung_volumes p full_lung) depths of
        Inl e \<Rightarrow> Inl e
      | Inr full_curve \<Rightarrow>
          (case net_forces_loop p wcf (lung_volumes p medium_lung) depths of
             Inl e \<Rightarrow> Inl e
           | Inr medium_curve \<Rightarrow>
               (case net_forces_loop p wcf (lung_volumes p empty_lung) depths of
                  Inl e \<Rightarrow> Inl e
                | Inr empty_curve \<Rightarrow>
                    Inr (\<lambda>c. case c of full_lung \<Rightarrow> full_curve
                               | medium_lung \<Rightarrow> medium_curve
                               | empty_lung \<Rightarrow> empty_curve))))"

text \<open>
  \<^verbatim>\<open>plot_net_force_kgf(params, plot=False)\<close>. The dictionary is the caller's object, so
  the function returns it as it leaves it, together with its result.
\<close>

definition plot_net_force_kgf ::
  "params \<Rightarrow> params \<times> (error + real list \<times> (lung_condition \<Rightarrow> real list))" where
  "plot_net_force_kgf params0 =
     (let p = store_density params0;
          depths = linspace 0 (fst (y_limits p)) 500;
          wetsuit_compressibility = wetsuit_compressibility_factor p / 100
      in (p, case net_force_curves p wetsuit_compressibility depths of
               Inl e \<Rightarrow> Inl e
             | Inr curves \<Rightarrow> Inr (depths, curves)))"

subsection \<open>Energy integrator\<close>

text \<open>
  numpy indexing by a boolean mask, \<^verbatim>\<open>xs[mask]\<close>: the mask must be as long as the array.
\<close>

definition bool_index :: "'a list \<Rightarrow> bool list \<Rightarrow> error + 'a list" where
  "bool_index xs flags =
     (if length flags \<noteq> length xs then Inl IndexError
      else Inr (map fst (filter snd (zip xs flags))))"

text \<open>The downward loop, \<^verbatim>\<open>for i in range(len(relevant_depths) - 1)\<close>.\<close>

definition downward_work :: "real list \<Rightarrow> real list \<Rightarrow> real list" where
  "downward_work relevant_depths relevant_forces =
     map (\<lambda>i. let force = relevant_forces ! i * 9.81;
                   distance = relevant_depths ! (i + 1) - relevant_depths ! i
               in if force > 0 then force * \<bar>distance\<bar> else 0)
         [0..<length relevant_depths - 1]"

text \<open>The upward loop, \<^verbatim>\<open>for i in range(len(relevant_depths) - 1, 0, -1)\<close>.\<close>

definition upward_work :: "real list \<Rightarrow> real list \<Rightarrow> real list" where
  "upward_work relevant_depths relevant_forces =
     map (\<lambda>i. let force = relevant_forces ! i * 9.81;
                   distance = relevant_depths ! i - relevant_depths ! (i - 1)
               in if force < 0 then \<bar>force * distance\<bar> else 0)
         (rev [1..<length relevant_depths])"

text \<open>\<^verbatim>\<open>np.cumsum\<close>, with the running sum as accumulator.\<close>

fun cumsum_from :: "real \<Rightarrow> real list \<Rightarrow> real list" where
  "cumsum_from s [] = []"
| "cumsum_from s (x # xs) = (s + x) # cumsum_from (s + x) xs"

definition cumsum :: "real list \<Rightarrow> real list" where
  "cumsum xs = cumsum_from 0 xs"

text \<open>
  Lines 12-51 of \<^verbatim>\<open>energy_use\<close> on a force curve: the array
  \<^verbatim>\<open>cumulative_energy_wh\<close>. Line 18 reads \<^verbatim>\<open>relevant_depths[0]\<close>, which raises
  when no grid depth is within range.
\<close>

definition cumulative_energy_wh :: "real list \<Rightarrow> real list \<Rightarrow> real \<Rightarrow> error + real list" where
  "cumulative_energy_wh depths net_forces depth =
     (let depth_indices = map (\<lambda>d. d \<le> depth) depths
      in case bool_index depths depth_indices of
           Inl e \<Rightarrow> Inl e
         | Inr relevant_depths \<Rightarrow>
             (case bool_index net_forces depth_indices of
                Inl e \<Rightarrow> Inl e
              | Inr relevant_forces \<Rightarrow>
                  if relevant_depths = [] then Inl IndexError
                  else
                    let energy_deltas =
                          downward_work relevant_depths relevant_forces
                          @ upward_work relevant_depths relevant_forces;
                        energy_deltas_wh = map (\<lambda>w. w / 3600) energy_deltas
                    in Inr (0 # cumsum energy_deltas_wh)))"

text \<open>Line 86: \<^verbatim>\<open>return cumulative_energy_wh[-1]\<close>.\<close>

definition energy_of_curve :: "real list \<Rightarrow> real list \<Rightarrow> real \<Rightarrow> error + real" where
  "energy_of_curve depths net_forces depth =
     (case cumulative_energy_wh depths net_forces depth of
        Inl e \<Rightarrow> Inl e
      | Inr cumulative \<Rightarrow> Inr (last cumulative))"

text \<open>\<^verbatim>\<open>energy_use(params, depth, lung_condition, plot=False)\<close>.\<close>

definition energy_use :: "params \<Rightarrow> real \<Rightarrow> lung_condition \<Rightarrow> params \<times> (error + real)" where
  "energy_use params0 depth lung_cond =
     (case plot_net_force_kgf params0 of
        (p, Inl e) \<Rightarrow> (p, Inl e)
      | (p, Inr (depths, curves)) \<Rightarrow> (p, energy_of_curve depths (curves lung_cond) depth))"

subsection \<open>Weight optimiser\<close>

text \<open>
  \<^verbatim>\<open>np.arange(start, stop, step)\<close> for a positive step: the values
  \<open>start + i * step\<close> for \<open>i\<close> below \<open>\<lceil>(stop - start) / step\<rceil>\<close>.
\<close>

definition arange :: "real \<Rightarrow> real \<Rightarrow> real \<Rightarrow> real list" where
  "arange start stop step =
     map (\<lambda>i. start + real i * step) [0..<nat \<lceil>(stop - start) / step\<rceil>]"

text \<open>
  The loop \<^verbatim>\<open>for weight in weights\<close> of \<^verbatim>\<open>energy_vs_weight\<close>: each probe runs
  \<^verbatim>\<open>energy_use\<close> on a copy of the dictionary with the lead weight overwritten, so the
  caller's dictionary is not touched.
\<close>

fun energies_loop :: "params \<Rightarrow> real \<Rightarrow> lung_condition \<Rightarrow> real list \<Rightarrow> error + real list" where
  "energies_loop p depth lung_cond [] = Inr []"
| "energies_loop p depth lung_cond (weight # ws) =
     (let params_with_weight = p\<lparr>lead_weight := weight\<rparr>
      in case snd (energy_use params_with_weight depth lung_cond) of
           Inl e \<Rightarrow> Inl e
         | Inr energy \<Rightarrow>
             (case energies_loop p depth lung_cond ws of
                Inl e \<Rightarrow> Inl e
              | Inr es \<Rightarrow> Inr (energy # es)))"

text \<open>\<^verbatim>\<open>np.argmin\<close> on a non-empty array: the first index of a least element.\<close>

fun argmin :: "real list \<Rightarrow> nat" where
  "argmin [] = 0"
| "argmin [x] = 0"
| "argmin (x # y # ys) =
     (let j = argmin (y # ys) in if x \<le> (y # ys) ! j then 0 else Suc j)"

text \<open>\<^verbatim>\<open>np.polyval\<close>: Horner's scheme from the leading coefficient.\<close>

definition polyval :: "real list \<Rightarrow> real \<Rightarrow> real" where
  "polyval coeffs x = fold (\<lambda>pv y. y * x + pv) coeffs 0"

text \<open>A Python slice \<^verbatim>\<open>xs[i:j]\<close> with \<open>0 \<le> i\<close>.\<close>

definition slice :: "'a list \<Rightarrow> nat \<Rightarrow> nat \<Rightarrow> 'a list" where
  "slice xs i j = take (j - i) (drop i xs)"

text \<open>
  A float the optimiser reports: numpy divides by zero without raising and yields an
  infinity or NaN, which is the value \<open>NonFinite\<close>.
\<close>

datatype pyfloat = Finite real | NonFinite

text \<open>
  \<^verbatim>\<open>np.polyfit(xs, ys, 2)\<close> is a library routine of numpy, a floating-point
  least-squares solve; no source of it is part of this program, so it is a parameter:
  a function from the three abscissae and the three ordinates to the coefficients
  \<open>(a, b, c)\<close> it returns, whatever their rounding, or to the exception it raises.
\<close>

type_synonym polyfit =
  "real \<times> real \<times> real \<Rightarrow> real \<times> real \<times> real \<Rightarrow> error + real \<times> real \<times> real"

text \<open>Line 114: \<^verbatim>\<open>np.argmin\<close> raises \<^verbatim>\<open>ValueError\<close> on an empty array.\<close>

definition np_argmin :: "real list \<Rightarrow> error + nat" where
  "np_argmin es = (if es = [] then Inl ValueError else Inr (argmin es))"

text \<open>
  Lines 114-132 of \<^verbatim>\<open>energy_vs_weight\<close>: the reported optimal weight and minimum
  energy. Unpacking a slice that has not three elements raises \<^verbatim>\<open>ValueError\<close>; an
  exception of \<^verbatim>\<open>np.polyfit\<close> is passed on.
\<close>

definition optimum :: "polyfit \<Rightarrow> real list \<Rightarrow> real list \<Rightarrow> error + pyfloat \<times> pyfloat" where
  "optimum polyfit ws es =
     (case np_argmin es of
        Inl e \<Rightarrow> Inl e
      | Inr min_idx \<Rightarrow>
          if min_idx = 0 \<or> int min_idx = int (length ws) - 1 then
            (if min_idx < length ws
             then Inr (Finite (ws ! min_idx), Finite (es ! min_idx))
             else Inl IndexError)
          else
            let xs = slice ws (min_idx - 1) (min_idx + 2);
                ys = slice es (min_idx - 1) (min_idx + 2)
            in if length xs \<noteq> 3 \<or> length ys \<noteq> 3 then Inl ValueError
               else
                 (case polyfit (xs ! 0, xs ! 1, xs ! 2) (ys ! 0, ys ! 1, ys ! 2) of
                    Inl e \<Rightarrow> Inl e
                  | Inr (a, b, c) \<Rightarrow>
                      if a = 0 then Inr (NonFinite, NonFinite)
                      else
                        let optimal_weight = - b / (2 * a);
                            min_energy = polyval [a, b, c] optimal_weight
                        in Inr (Finite optimal_weight, Finite min_energy)))"

text \<open>One entry of the dictionary \<^verbatim>\<open>results\<close>.\<close>

record optimization_result =
  result_weights :: "real list"
  result_energies :: "real list"
  result_optimal_weight :: pyfloat
  result_minimum_energy :: pyfloat

definition result_for ::
  "polyfit \<Rightarrow> params \<Rightarrow> real \<Rightarrow> real list \<Rightarrow> lung_condition \<Rightarrow> error + optimization_result" where
  "result_for polyfit p depth ws lung_cond =
     (case energies_loop p depth lung_cond ws of
        Inl e \<Rightarrow> Inl e
      | Inr es \<Rightarrow>
          (case optimum polyfit ws es of
             Inl e \<Rightarrow> Inl e
           | Inr (optimal_weight, min_energy) \<Rightarrow>
               Inr \<lparr> result_weights = ws, result_energies = es,
                     result_optimal_weight = optimal_weight,
                     result_minimum_energy = min_energy \<rparr>))"

text \<open>\<^verbatim>\<open>energy_vs_weight(params, depth, weight_list, plot=False)\<close>.\<close>

definition energy_vs_weight ::
  "polyfit \<Rightarrow> params \<Rightarrow> real \<Rightarrow> real list option
     \<Rightarrow> error + (lung_condition \<Rightarrow> optimization_result)" where
  "energy_vs_weight polyfit p depth weight_list =
     (let ws = (case weight_list of Some l \<Rightarrow> l | None \<Rightarrow> arange 0 12 0.2)
      in case result_for polyfit p depth ws full_lung of
           Inl e \<Rightarrow> Inl e
         | Inr r_full \<Rightarrow>
             (case result_for polyfit p depth ws medium_lung of
                Inl e \<Rightarrow> Inl e
              | Inr r_medium \<Rightarrow>
                  (case result_for polyfit p depth ws empty_lung of
                     Inl e \<Rightarrow> Inl e
                   | Inr r_empty \<Rightarrow>
                       Inr (\<lambda>c. case c of full_lung \<Rightarrow> r_full
                                  | medium_lung \<Rightarrow> r_medium
                                  | empty_lung \<Rightarrow> r_empty))))"

subsection \<open>Depth sweep driver\<close>

text \<open>Line 192: the depths swept for a maximum depth.\<close>

definition sweep_depths :: "real \<Rightarrow> real list" where
  "sweep_depths max_depth = arange 1 (max_depth + 1) 0.5"

text \<open>
  The loop \<^verbatim>\<open>for depth in depths\<close> of \<^verbatim>\<open>optimal_weight_vs_depth\<close>, appending one
  optimal weight per lung condition and depth.
\<close>

fun sweep_loop ::
  "polyfit \<Rightarrow> params \<Rightarrow> real list \<Rightarrow> error + (lung_condition \<Rightarrow> pyfloat list)" where
  "sweep_loop polyfit p [] = Inr (\<lambda>c. [])"
| "sweep_loop polyfit p (depth # depths) =
     (case energy_vs_weight polyfit p depth None of
        Inl e \<Rightarrow> Inl e
      | Inr results \<Rightarrow>
          (case sweep_loop polyfit p depths of
             Inl e \<Rightarrow> Inl e
           | Inr optimal_weights \<Rightarrow>
               Inr (\<lambda>c. result_optimal_weight (results c) # optimal_weights c)))"

definition optimal_weight_vs_depth ::
  "polyfit \<Rightarrow> params \<Rightarrow> real \<Rightarrow> error + (lung_condition \<Rightarrow> pyfloat list)" where
  "optimal_weight_vs_depth polyfit p max_depth = sweep_loop polyfit p (sweep_depths max_depth)"

subsection \<open>The specification's formulas\<close>

text \<open>
  The displaced volume in cubic centimetres as the specification words it: lung, fat,
  lean tissue, wetsuit, snorkel and mask, lead.
\<close>

definition spec_displaced_cm3 :: "params \<Rightarrow> lung_condition \<Rightarrow> real \<Rightarrow> real" where
  "spec_displaced_cm3 p c d =
     (residual_volume p + (lung_volumes p c * 1000 - residual_volume p) / (1 + d / 10))
     + (mass p * body_fat_percentage p * 1000 / 0.9) / (1 + d * 0.1 / 100)
     + (mass p * (1 - body_fat_percentage p) * 1000 / 1.1) / (1 + d * 0.05 / 100)
     + (wetsuit_mass p * 1000 / wetsuit_density p)
         * (1 - (wetsuit_compressibility_factor p / 100) * d)
     + snorkel_mask_volume p
     + (lead_weight p / 11340) * 1000000"

definition spec_net_force :: "params \<Rightarrow> lung_condition \<Rightarrow> real \<Rightarrow> real" where
  "spec_net_force p c d =
     (let rho = get_salinity_and_density (water_type p) (temperature p);
          buoyant = (spec_displaced_cm3 p c d * (1 / 1000000)) * rho * 9.81;
          weight = (mass p + wetsuit_mass p + lead_weight p) * 9.81
      in (buoyant - weight) / 9.81)"

text \<open>
  The energy total as the specification words it, on a force curve given as a list of
  samples (depth, force in kgf): the work increments of the descent over consecutive
  pairs, those of the ascent over the same pairs in reverse, each in watt-hours.
\<close>

fun spec_descent :: "(real \<times> real) list \<Rightarrow> real list" where
  "spec_descent ((d1, f1) # (d2, f2) # rest) =
     (if f1 > 0 then f1 * 9.81 * \<bar>d2 - d1\<bar> else 0) / 3600 # spec_descent ((d2, f2) # rest)"
| "spec_descent _ = []"

fun spec_ascent_pairs :: "(real \<times> real) list \<Rightarrow> real list" where
  "spec_ascent_pairs ((d1, f1) # (d2, f2) # rest) =
     (if f2 < 0 then \<bar>f2 * 9.81 * (d2 - d1)\<bar> else 0) / 3600 # spec_ascent_pairs ((d2, f2) # rest)"
| "spec_ascent_pairs _ = []"

definition spec_increments :: "(real \<times> real) list \<Rightarrow> real \<Rightarrow> real list" where
  "spec_increments curve target =
     (let restricted = filter (\<lambda>(d, f). d \<le> target) curve
      in spec_descent restricted @ rev (spec_ascent_pairs restricted))"

definition spec_cumulative :: "(real \<times> real) list \<Rightarrow> real \<Rightarrow> real list" where
  "spec_cumulative curve target =
     map (\<lambda>k. sum_list (take k (spec_increments curve target)))
         [0..<Suc (length (spec_increments curve target))]"

definition spec_total_energy :: "(real \<times> real) list \<Rightarrow> real \<Rightarrow> real" where
  "spec_total_energy curve target = last (spec_cumulative curve target)"

text \<open>The grid depths within range of a target depth.\<close>

definition in_range :: "real list \<Rightarrow> real \<Rightarrow> real list" where
  "in_range depths target = filter (\<lambda>d. d \<le> target) depths"

text \<open>
  The increments of the upward loop in order of increasing depth: sample \<open>i + 1\<close> is the
  deeper point of the pair \<open>(i, i + 1)\<close>.
\<close>

definition upward_fwd :: "real list \<Rightarrow> real list \<Rightarrow> real list" where
  "upward_fwd rd rf =
     map (\<lambda>i. let force = rf ! Suc i * 9.81;
                   distance = rd ! Suc i - rd ! i
               in if force < 0 then \<bar>force * distance\<bar> else 0)
         [0..<length rd - 1]"

section \<open>Properties\<close>

subsection \<open>Density model\<close>

lemma density_of_example:
  "get_salinity_and_density (water_type example_params) (temperature example_params) = 1021.4"
  by (simp add: example_params_def get_salinity_and_density_def calculate_seawater_density_def)

text \<open>
  Claim C9. For every salinity and temperature the density model returns
  \<open>(1.000 + 0.0008 s - 0.0003 t) * 1000\<close>; the water type resolves to salinity 35 for
  \<^verbatim>\<open>"sea"\<close> and to 0 for every other type. Both functions are total: they have no
  error outcome.
\<close>

theorem density_model:
  "calculate_seawater_density s t * 1000 = (1.000 + 0.0008 * s - 0.0003 * t) * 1000
   \<and> get_salinity_and_density ''sea'' t = (1.000 + 0.0008 * 35 - 0.0003 * t) * 1000
   \<and> (w \<noteq> ''sea'' \<longrightarrow>
        get_salinity_and_density w t = (1.000 + 0.0008 * 0 - 0.0003 * t) * 1000)"
  by (simp add: calculate_seawater_density_def get_salinity_and_density_def)

theorem density_model_witness:
  "calculate_seawater_density 35 22 * 1000 = 1021.4
   \<and> get_salinity_and_density ''sea'' 22 = 1021.4
   \<and> ''fresh'' \<noteq> ''sea''
   \<and> get_salinity_and_density ''fresh'' 22 = 993.4"
  using density_model [of 35 22 "''fresh''"] by simp

subsection \<open>Force model\<close>

lemma force_model_submerged:
  "0 \<le> d \<Longrightarrow> wetsuit_density p \<noteq> 0 \<Longrightarrow> force_model p c d = Inr (spec_net_force p c d)"
  unfolding force_model_def net_force_kgf_def store_density_def spec_net_force_def
    spec_displaced_cm3_def Let_def
  by (simp add: add.commute add.left_commute)

lemma force_model_zero_density:
  "0 \<le> d \<Longrightarrow> wetsuit_density p = 0 \<Longrightarrow> force_model p c d = Inl ZeroDivisionError"
  by (simp add: force_model_def net_force_kgf_def Let_def store_density_def)

lemma displaced_lead:
  "spec_displaced_cm3 (p\<lparr>lead_weight := w\<rparr>) c d
     = spec_displaced_cm3 (p\<lparr>lead_weight := 0\<rparr>) c d + w / 11340 * 1000000"
  by (simp add: spec_displaced_cm3_def)

text \<open>The net force is affine in the lead weight, with slope \<open>rho / 11340 - 1\<close>.\<close>

lemma spec_net_force_lead:
  "spec_net_force (p\<lparr>lead_weight := w\<rparr>) c d
     = spec_net_force (p\<lparr>lead_weight := 0\<rparr>) c d
       + w * (get_salinity_and_density (water_type p) (temperature p) / 11340 - 1)"
proof -
  define X where "X = spec_displaced_cm3 (p\<lparr>lead_weight := 0\<rparr>) c d"
  have h: "spec_displaced_cm3 (p\<lparr>lead_weight := w\<rparr>) c d = X + w / 11340 * 1000000"
    unfolding X_def by (rule displaced_lead)
  show ?thesis
    unfolding spec_net_force_def Let_def X_def [symmetric] h
    by (simp add: field_simps)
qed

text \<open>
  Claim C1. At every depth \<open>d \<ge> 0\<close>, for every lung condition and every parameter
  record, the net force the force model returns is (buoyant force - weight force) / 9.81,
  with the buoyant force the displaced volume in cubic metres times the resolved density
  times 9.81, the weight force (mass + wetsuit mass + lead weight) times 9.81, and the
  displaced volume the sum of the compressed lung, fat, lean, wetsuit, snorkel and lead
  volumes of the specification. The model returns a net force exactly when the wetsuit
  density, by which the formula divides, is not zero.
\<close>

theorem force_model_formula:
  assumes "0 \<le> d"
  shows "(\<forall>f. force_model p c d = Inr f \<longrightarrow>
            f = (spec_displaced_cm3 p c d * (1 / 1000000)
                   * get_salinity_and_density (water_type p) (temperature p) * 9.81
                 - (mass p + wetsuit_mass p + lead_weight p) * 9.81) / 9.81)
         \<and> (wetsuit_density p \<noteq> 0 \<longrightarrow>
              force_model p c d =
                Inr ((spec_displaced_cm3 p c d * (1 / 1000000)
                        * get_salinity_and_density (water_type p) (temperature p) * 9.81
                      - (mass p + wetsuit_mass p + lead_weight p) * 9.81) / 9.81))
         \<and> (wetsuit_density p = 0 \<longrightarrow> force_model p c d = Inl ZeroDivisionError)"
proof (cases "wetsuit_density p = 0")
  case True
  then have "force_model p c d = Inl ZeroDivisionError"
    using assms by (simp add: force_model_zero_density)
  then show ?thesis using True by simp
next
  case False
  define F where "F = (spec_displaced_cm3 p c d * (1 / 1000000)
                   * get_salinity_and_density (water_type p) (temperature p) * 9.81
                 - (mass p + wetsuit_mass p + lead_weight p) * 9.81) / 9.81"
  have "spec_net_force p c d = F"
    unfolding F_def spec_net_force_def Let_def by (rule refl)
  then have "force_model p c d = Inr F"
    using assms False by (simp add: force_model_submerged)
  then show ?thesis unfolding F_def [symmetric] using False by simp
qed

theorem force_model_formula_witness:
  "(0::real) \<le> 10 \<and> wetsuit_density example_params \<noteq> 0
   \<and> force_model example_params full_lung 10 = Inr (1642228648519 / 334966500000)"
  using force_model_formula [of 10 example_params full_lung]
  by (simp add: density_of_example spec_displaced_cm3_def)
     (simp add: example_params_def example_lung_volumes_def)

text \<open>
  Claim C7. At every depth \<open>d < 0\<close> the force model returns -(mass + wetsuit mass), and
  the lead weight does not contribute: overwriting it leaves the result unchanged.
\<close>

theorem force_model_above_surface:
  assumes "d < 0"
  shows "force_model p c d = Inr (- (mass p + wetsuit_mass p))
         \<and> force_model (p\<lparr>lead_weight := w\<rparr>) c d = force_model p c d"
  using assms by (simp add: force_model_def net_force_kgf_def store_density_def)

theorem force_model_above_surface_witness:
  "(-1::real) < 0
   \<and> force_model example_params full_lung (-1) = Inr (- (1781 / 25))
   \<and> force_model (example_params\<lparr>lead_weight := 5\<rparr>) full_lung (-1)
       = force_model example_params full_lung (-1)"
  using force_model_above_surface [of "-1" example_params full_lung 5]
  by (simp add: example_params_def)

text \<open>
  Claim C10, as amended. At every fixed depth \<open>d \<ge> 0\<close>, for every lung condition and
  every parameter record whose resolved seawater density is below 11340, the net force
  evaluated in exact arithmetic is strictly decreasing in the lead weight: of the net
  forces for two lead weights, the one for the larger weight is the smaller, and both are
  returned whenever the wetsuit density is not zero. In double precision the code follows
  this only up to rounding.
\<close>

theorem force_model_decreasing_in_lead:
  assumes "0 \<le> d"
    and "get_salinity_and_density (water_type p) (temperature p) < 11340"
    and "w1 < w2"
  shows "(\<forall>f1 f2. force_model (p\<lparr>lead_weight := w1\<rparr>) c d = Inr f1
            \<and> force_model (p\<lparr>lead_weight := w2\<rparr>) c d = Inr f2 \<longrightarrow> f2 < f1)
         \<and> (wetsuit_density p \<noteq> 0 \<longrightarrow>
              (\<exists>f1 f2. force_model (p\<lparr>lead_weight := w1\<rparr>) c d = Inr f1
                 \<and> force_model (p\<lparr>lead_weight := w2\<rparr>) c d = Inr f2 \<and> f2 < f1))"
proof (cases "wetsuit_density p = 0")
  case True
  then have "force_model (p\<lparr>lead_weight := w1\<rparr>) c d = Inl ZeroDivisionError"
    using assms(1) by (simp add: force_model_zero_density)
  then show ?thesis using True by simp
next
  case False
  let ?k = "get_salinity_and_density (water_type p) (temperature p) / 11340 - 1"
  have k: "?k < 0" using assms(2) by simp
  have "w2 * ?k < w1 * ?k"
    using k assms(3) by (rule mult_strict_right_mono_neg [rotated])
  then have lt: "spec_net_force (p\<lparr>lead_weight := w2\<rparr>) c d
                 < spec_net_force (p\<lparr>lead_weight := w1\<rparr>) c d"
    by (simp add: spec_net_force_lead [where w = w1] spec_net_force_lead [where w = w2])
  have r1: "force_model (p\<lparr>lead_weight := w1\<rparr>) c d
            = Inr (spec_net_force (p\<lparr>lead_weight := w1\<rparr>) c d)"
    using assms(1) False by (simp add: force_model_submerged)
  have r2: "force_model (p\<lparr>lead_weight := w2\<rparr>) c d
            = Inr (spec_net_force (p\<lparr>lead_weight := w2\<rparr>) c d)"
    using assms(1) False by (simp add: force_model_submerged)
  show ?thesis using lt r1 r2 by simp
qed

theorem force_model_decreasing_in_lead_witness:
  "(0::real) \<le> 10
   \<and> get_salinity_and_density (water_type example_params) (temperature example_params) < 11340
   \<and> (0::real) < 1 \<and> wetsuit_density example_params \<noteq> 0
   \<and> (\<exists>f1 f2. force_model (example_params\<lparr>lead_weight := 0\<rparr>) full_lung 10 = Inr f1
          \<and> force_model (example_params\<lparr>lead_weight := 1\<rparr>) full_lung 10 = Inr f2
          \<and> f2 < f1)"
  using force_model_decreasing_in_lead [of 10 example_params 0 1 full_lung]
  by (simp add: density_of_example) (simp add: example_params_def)

subsection \<open>Double-precision rounding\<close>

lemma pow2_pos: "0 < pow2 e"
  by (simp add: pow2_def)

lemma pow2_Suc: "pow2 (e + 1) = 2 * pow2 e"
proof (cases "0 \<le> e")
  case True
  then show ?thesis by (simp add: pow2_def nat_add_distrib)
next
  case False
  then have "nat (- e) = Suc (nat (- (e + 1)))" by simp
  then show ?thesis using False by (simp add: pow2_def)
qed

lemma scale_down_eq:
  "2 ^ k \<le> x \<Longrightarrow> x < 2 ^ Suc k \<Longrightarrow> k \<le> n \<Longrightarrow> scale_down n x e = e + int k"
proof (induction n arbitrary: x e k)
  case 0
  then show ?case by simp
next
  case (Suc n)
  show ?case
  proof (cases k)
    case 0
    then show ?thesis using Suc.prems by simp
  next
    case (Suc j)
    have "(1::real) \<le> 2 ^ j" by simp
    then have "(2::real) \<le> 2 ^ k" using Suc by simp
    then have "2 \<le> x" using Suc.prems(1) by linarith
    moreover have "scale_down n (x / 2) (e + 1) = e + 1 + int j"
      using Suc.prems Suc by (intro Suc.IH) simp_all
    ultimately show ?thesis using Suc by simp
  qed
qed

lemma scale_up_eq:
  "0 < x \<Longrightarrow> 1 \<le> x * 2 ^ k \<Longrightarrow> x * 2 ^ k < 2 \<Longrightarrow> k \<le> n \<Longrightarrow> scale_up n x e = e - int k"
proof (induction n arbitrary: x e k)
  case 0
  then show ?case by simp
next
  case (Suc n)
  show ?case
  proof (cases k)
    case 0
    then show ?thesis using Suc.prems by simp
  next
    case (Suc j)
    have "x * 2 \<le> x * 2 ^ k" using Suc Suc.prems(1) by simp
    then have "x < 1" using Suc.prems(3) by simp
    moreover have "scale_up n (x * 2) (e - 1) = e - 1 - int j"
      using Suc.prems Suc by (intro Suc.IH) (simp_all add: mult.assoc)
    ultimately show ?thesis using Suc by simp
  qed
qed

lemma binexp_eq:
  assumes "pow2 e \<le> \<bar>x\<bar>" and "\<bar>x\<bar> < pow2 (e + 1)" and "- 1100 \<le> e" and "e \<le> 1100"
  shows "binexp x = e"
proof (cases "0 \<le> e")
  case True
  have lo: "2 ^ nat e \<le> \<bar>x\<bar>" using assms(1) True by (simp add: pow2_def)
  have hi: "\<bar>x\<bar> < 2 ^ Suc (nat e)" using assms(2) True by (simp add: pow2_Suc) (simp add: pow2_def)
  have "(1::real) \<le> 2 ^ nat e" by simp
  then have "1 \<le> \<bar>x\<bar>" using lo by linarith
  moreover have "scale_down 1100 \<bar>x\<bar> 0 = 0 + int (nat e)"
    using lo hi assms(4) True by (intro scale_down_eq) simp_all
  ultimately show ?thesis using True by (simp add: binexp_def)
next
  case False
  define k where "k = nat (- e)"
  have e: "e = - int k" and k: "0 < k" using False by (simp_all add: k_def)
  have p: "pow2 e = 1 / 2 ^ k" using False by (simp add: pow2_def k_def)
  have lo: "1 \<le> \<bar>x\<bar> * 2 ^ k" using assms(1) by (simp add: p field_simps)
  have hi: "\<bar>x\<bar> * 2 ^ k < 2" using assms(2) unfolding pow2_Suc p by (simp add: field_simps)
  have "(2::real) \<le> 2 ^ k" using k by (cases k) simp_all
  then have "\<bar>x\<bar> * 2 \<le> \<bar>x\<bar> * 2 ^ k" by (intro mult_left_mono) simp_all
  then have lt: "\<bar>x\<bar> < 1" using hi by simp
  have pos: "0 < \<bar>x\<bar>" using assms(1) pow2_pos [of e] by linarith
  have "scale_up 1100 \<bar>x\<bar> 0 = 0 - int k"
    using pos lo hi assms(3) e by (intro scale_up_eq) simp_all
  then show ?thesis using lt e by (simp add: binexp_def)
qed

lemma round_even_near: "\<bar>y - real_of_int m\<bar> < 1 / 2 \<Longrightarrow> round_even y = m"
proof -
  assume a: "\<bar>y - real_of_int m\<bar> < 1 / 2"
  show ?thesis
  proof (cases "real_of_int m \<le> y")
    case True
    then have "\<lfloor>y\<rfloor> = m" using a by (intro floor_unique) simp_all
    then show ?thesis using a True by (simp add: round_even_def Let_def)
  next
    case False
    then have "\<lfloor>y\<rfloor> = m - 1" using a by (intro floor_unique) simp_all
    then show ?thesis using a False by (simp add: round_even_def Let_def)
  qed
qed

lemma round_even_tie: "\<bar>y - real_of_int m\<bar> = 1 / 2 \<Longrightarrow> even m \<Longrightarrow> round_even y = m"
proof -
  assume a: "\<bar>y - real_of_int m\<bar> = 1 / 2" and ev: "even m"
  show ?thesis
  proof (cases "real_of_int m \<le> y")
    case True
    then have y: "y = real_of_int m + 1 / 2" using a by simp
    then have "\<lfloor>y\<rfloor> = m" by (intro floor_unique) simp_all
    then show ?thesis using y ev by (simp add: round_even_def Let_def)
  next
    case False
    then have y: "y = real_of_int m - 1 / 2" using a by simp
    then have "\<lfloor>y\<rfloor> = m - 1" by (intro floor_unique) simp_all
    then show ?thesis using y ev by (simp add: round_even_def Let_def)
  qed
qed

text \<open>
  How a rounding is checked: \<open>x\<close> lies in the binade of exponent \<open>e\<close>, and the multiple
  \<open>m\<close> of the unit in the last place is nearer than half a unit, or exactly half a unit
  away with \<open>m\<close> even.
\<close>

lemma rnd_eqI:
  assumes "pow2 e \<le> \<bar>x\<bar>" and "\<bar>x\<bar> < pow2 (e + 1)" and "- 1100 \<le> e" and "e \<le> 1100"
    and "\<bar>x - real_of_int m * pow2 (e - 52)\<bar> < pow2 (e - 52) / 2
         \<or> (\<bar>x - real_of_int m * pow2 (e - 52)\<bar> = pow2 (e - 52) / 2 \<and> even m)"
    and "r = real_of_int m * pow2 (e - 52)"
  shows "rnd x = r"
proof -
  define u where "u = pow2 (e - 52)"
  have u: "0 < u" by (simp add: u_def pow2_pos)
  have x: "x \<noteq> 0" using assms(1) pow2_pos [of e] by auto
  have b: "binexp x = e" using assms(1-4) by (rule binexp_eq)
  have d: "\<bar>x / u - real_of_int m\<bar> = \<bar>x - real_of_int m * u\<bar> / u"
  proof -
    have "x / u - real_of_int m = (x - real_of_int m * u) / u"
      using u by (simp add: field_simps)
    then show ?thesis using u by (simp add: abs_divide)
  qed
  have "round_even (x / u) = m"
  proof (cases "\<bar>x - real_of_int m * u\<bar> < u / 2")
    case True
    then have "\<bar>x / u - real_of_int m\<bar> < 1 / 2" using u by (simp add: d field_simps)
    then show ?thesis by (rule round_even_near)
  next
    case False
    then have t: "\<bar>x - real_of_int m * u\<bar> = u / 2" and ev: "even m"
      using assms(5) by (simp_all add: u_def)
    have "\<bar>x / u - real_of_int m\<bar> = 1 / 2" using u by (simp add: d t)
    then show ?thesis using ev by (rule round_even_tie)
  qed
  then show ?thesis using x b assms(6) by (simp add: rnd_def Let_def u_def)
qed

lemma f64_step_1: "f64 (1 / 100000000000000000) = 6490371073168535 / 649037107316853453566312041152512"
  unfolding f64_def fadd_def fsub_def fmul_def fdiv_def
  by (rule rnd_eqI [where e = "- 57" and m = "6490371073168535"]) (simp_all add: pow2_def)

lemma f64_step_2: "f64 (3000000000000157 / 1000000000000000) = 3377699720528049 / 1125899906842624"
  unfolding f64_def fadd_def fsub_def fmul_def fdiv_def
  by (rule rnd_eqI [where e = "1" and m = "6755399441056098"]) (simp_all add: pow2_def)

lemma f64_step_3: "f64 (30000000000001577 / 10000000000000000) = 6755399441056099 / 2251799813685248"
  unfolding f64_def fadd_def fsub_def fmul_def fdiv_def
  by (rule rnd_eqI [where e = "1" and m = "6755399441056099"]) (simp_all add: pow2_def)

lemma f64_step_4: "f64 (1 / 5) = 3602879701896397 / 18014398509481984"
  unfolding f64_def fadd_def fsub_def fmul_def fdiv_def
  by (rule rnd_eqI [where e = "- 3" and m = "7205759403792794"]) (simp_all add: pow2_def)

lemma f64_step_5: "f64 (3 / 2) = 3 / 2"
  unfolding f64_def fadd_def fsub_def fmul_def fdiv_def
  by (rule rnd_eqI [where e = "0" and m = "6755399441055744"]) (simp_all add: pow2_def)

lemma f64_step_6: "fmul (3 / 2) 1000 = 1500"
  unfolding f64_def fadd_def fsub_def fmul_def fdiv_def
  by (rule rnd_eqI [where e = "10" and m = "6597069766656000"]) (simp_all add: pow2_def)

lemma f64_step_7: "f64 (31 / 25) = 5584463537939415 / 4503599627370496"
  unfolding f64_def fadd_def fsub_def fmul_def fdiv_def
  by (rule rnd_eqI [where e = "0" and m = "5584463537939415"]) (simp_all add: pow2_def)

lemma f64_step_8: "f64 (6 / 25) = 1080863910568919 / 4503599627370496"
  unfolding f64_def fadd_def fsub_def fmul_def fdiv_def
  by (rule rnd_eqI [where e = "- 3" and m = "8646911284551352"]) (simp_all add: pow2_def)

lemma f64_step_9: "f64 (8 / 5) = 3602879701896397 / 2251799813685248"
  unfolding f64_def fadd_def fsub_def fmul_def fdiv_def
  by (rule rnd_eqI [where e = "0" and m = "7205759403792794"]) (simp_all add: pow2_def)

lemma f64_step_10: "fdiv (3602879701896397 / 2251799813685248) 100 = 1152921504606847 / 72057594037927936"
  unfolding f64_def fadd_def fsub_def fmul_def fdiv_def
  by (rule rnd_eqI [where e = "- 6" and m = "4611686018427388"]) (simp_all add: pow2_def)

lemma f64_step_11: "f64 1 = 1"
  unfolding f64_def fadd_def fsub_def fmul_def fdiv_def
  by (rule rnd_eqI [where e = "0" and m = "4503599627370496"]) (simp_all add: pow2_def)

lemma f64_step_12: "f64 (1 / 1250) = 7378697629483821 / 9223372036854775808"
  unfolding f64_def fadd_def fsub_def fmul_def fdiv_def
  by (rule rnd_eqI [where e = "- 11" and m = "7378697629483821"]) (simp_all add: pow2_def)

lemma f64_step_13: "fmul (7378697629483821 / 9223372036854775808) 35 = 8070450532247929 / 288230376151711744"
  unfolding f64_def fadd_def fsub_def fmul_def fdiv_def
  by (rule rnd_eqI [where e = "- 6" and m = "8070450532247929"]) (simp_all add: pow2_def)

lemma f64_step_14: "fadd 1 (8070450532247929 / 288230376151711744) = 2314850208468435 / 2251799813685248"
  unfolding f64_def fadd_def fsub_def fmul_def fdiv_def
  by (rule rnd_eqI [where e = "0" and m = "4629700416936870"]) (simp_all add: pow2_def)

lemma f64_step_15: "f64 (3 / 10000) = 5534023222112865 / 18446744073709551616"
  unfolding f64_def fadd_def fsub_def fmul_def fdiv_def
  by (rule rnd_eqI [where e = "- 12" and m = "5534023222112865"]) (simp_all add: pow2_def)

lemma f64_step_16: "fmul (5534023222112865 / 18446744073709551616) 22 = 7609281930405189 / 1152921504606846976"
  unfolding f64_def fadd_def fsub_def fmul_def fdiv_def
  by (rule rnd_eqI [where e = "- 8" and m = "7609281930405189"]) (simp_all add: pow2_def)

lemma f64_step_17: "fsub (2314850208468435 / 2251799813685248) (7609281930405189 / 1152921504606846976) = 4599976659396225 / 4503599627370496"
  unfolding f64_def fadd_def fsub_def fmul_def fdiv_def
  by (rule rnd_eqI [where e = "0" and m = "4599976659396225"]) (simp_all add: pow2_def)

lemma f64_step_18: "fmul (4599976659396225 / 4503599627370496) 1000 = 2246082353220813 / 2199023255552"
  unfolding f64_def fadd_def fsub_def fmul_def fdiv_def
  by (rule rnd_eqI [where e = "9" and m = "8984329412883252"]) (simp_all add: pow2_def)

lemma f64_step_19: "fmul (13 / 2) 1000 = 6500"
  unfolding f64_def fadd_def fsub_def fmul_def fdiv_def
  by (rule rnd_eqI [where e = "12" and m = "7146825580544000"]) (simp_all add: pow2_def)

lemma f64_step_20: "fsub 6500 1500 = 5000"
  unfolding f64_def fadd_def fsub_def fmul_def fdiv_def
  by (rule rnd_eqI [where e = "12" and m = "5497558138880000"]) (simp_all add: pow2_def)

lemma f64_step_21: "fdiv 10 10 = 1"
  unfolding f64_def fadd_def fsub_def fmul_def fdiv_def
  by (rule rnd_eqI [where e = "0" and m = "4503599627370496"]) (simp_all add: pow2_def)

lemma f64_step_22: "fadd 1 1 = 2"
  unfolding f64_def fadd_def fsub_def fmul_def fdiv_def
  by (rule rnd_eqI [where e = "1" and m = "4503599627370496"]) (simp_all add: pow2_def)

lemma f64_step_23: "fdiv 5000 2 = 2500"
  unfolding f64_def fadd_def fsub_def fmul_def fdiv_def
  by (rule rnd_eqI [where e = "11" and m = "5497558138880000"]) (simp_all add: pow2_def)

lemma f64_step_24: "fadd 1500 2500 = 4000"
  unfolding f64_def fadd_def fsub_def fmul_def fdiv_def
  by (rule rnd_eqI [where e = "11" and m = "8796093022208000"]) (simp_all add: pow2_def)

lemma f64_step_25: "fmul 70 (3602879701896397 / 18014398509481984) = 14"
  unfolding f64_def fadd_def fsub_def fmul_def fdiv_def
  by (rule rnd_eqI [where e = "3" and m = "7881299347898368"]) (simp_all add: pow2_def)

lemma f64_step_26: "fmul 14 1000 = 14000"
  unfolding f64_def fadd_def fsub_def fmul_def fdiv_def
  by (rule rnd_eqI [where e = "13" and m = "7696581394432000"]) (simp_all add: pow2_def)

lemma f64_step_27: "f64 (9 / 10) = 8106479329266893 / 9007199254740992"
  unfolding f64_def fadd_def fsub_def fmul_def fdiv_def
  by (rule rnd_eqI [where e = "- 1" and m = "8106479329266893"]) (simp_all add: pow2_def)

lemma f64_step_28: "fdiv 14000 (8106479329266893 / 9007199254740992) = 2137939276231111 / 137438953472"
  unfolding f64_def fadd_def fsub_def fmul_def fdiv_def
  by (rule rnd_eqI [where e = "13" and m = "8551757104924444"]) (simp_all add: pow2_def)

lemma f64_step_29: "fsub 1 (3602879701896397 / 18014398509481984) = 3602879701896397 / 4503599627370496"
  unfolding f64_def fadd_def fsub_def fmul_def fdiv_def
  by (rule rnd_eqI [where e = "- 1" and m = "7205759403792794"]) (simp_all add: pow2_def)

lemma f64_step_30: "fmul 70 (3602879701896397 / 4503599627370496) = 56"
  unfolding f64_def fadd_def fsub_def fmul_def fdiv_def
  by (rule rnd_eqI [where e = "5" and m = "7881299347898368"]) (simp_all add: pow2_def)

lemma f64_step_31: "fmul 56 1000 = 56000"
  unfolding f64_def fadd_def fsub_def fmul_def fdiv_def
  by (rule rnd_eqI [where e = "15" and m = "7696581394432000"]) (simp_all add: pow2_def)

lemma f64_step_32: "f64 (11 / 10) = 2476979795053773 / 2251799813685248"
  unfolding f64_def fadd_def fsub_def fmul_def fdiv_def
  by (rule rnd_eqI [where e = "0" and m = "4953959590107546"]) (simp_all add: pow2_def)

lemma f64_step_33: "fdiv 56000 (2476979795053773 / 2251799813685248) = 6996892176756363 / 137438953472"
  unfolding f64_def fadd_def fsub_def fmul_def fdiv_def
  by (rule rnd_eqI [where e = "15" and m = "6996892176756363"]) (simp_all add: pow2_def)

lemma f64_step_34: "fmul (5584463537939415 / 4503599627370496) 1000 = 1240"
  unfolding f64_def fadd_def fsub_def fmul_def fdiv_def
  by (rule rnd_eqI [where e = "10" and m = "5453577673768960"]) (simp_all add: pow2_def)

lemma f64_step_35: "fdiv 1240 (1080863910568919 / 4503599627370496) = 5680810076842667 / 1099511627776"
  unfolding f64_def fadd_def fsub_def fmul_def fdiv_def
  by (rule rnd_eqI [where e = "12" and m = "5680810076842667"]) (simp_all add: pow2_def)

lemma f64_step_36: "fmul (1152921504606847 / 72057594037927936) 10 = 5764607523034235 / 36028797018963968"
  unfolding f64_def fadd_def fsub_def fmul_def fdiv_def
  by (rule rnd_eqI [where e = "- 3" and m = "5764607523034235"]) (simp_all add: pow2_def)

lemma f64_step_37: "fsub 1 (5764607523034235 / 36028797018963968) = 7566047373982433 / 9007199254740992"
  unfolding f64_def fadd_def fsub_def fmul_def fdiv_def
  by (rule rnd_eqI [where e = "- 1" and m = "7566047373982433"]) (simp_all add: pow2_def)

lemma f64_step_38: "fmul (5680810076842667 / 1099511627776) (7566047373982433 / 9007199254740992) = 4340"
  unfolding f64_def fadd_def fsub_def fmul_def fdiv_def
  by (rule rnd_eqI [where e = "12" and m = "4771880464547840"]) (simp_all add: pow2_def)

lemma f64_step_39: "fdiv 0 11340 = 0"
  by (simp add: f64_def fadd_def fsub_def fmul_def fdiv_def rnd_def)

lemma f64_step_40: "f64 (1 / 10) = 3602879701896397 / 36028797018963968"
  unfolding f64_def fadd_def fsub_def fmul_def fdiv_def
  by (rule rnd_eqI [where e = "- 4" and m = "7205759403792794"]) (simp_all add: pow2_def)

lemma f64_step_41: "fmul 10 (3602879701896397 / 36028797018963968) = 1"
  unfolding f64_def fadd_def fsub_def fmul_def fdiv_def
  by (rule rnd_eqI [where e = "0" and m = "4503599627370496"]) (simp_all add: pow2_def)

lemma f64_step_42: "fdiv 1 100 = 5764607523034235 / 576460752303423488"
  unfolding f64_def fadd_def fsub_def fmul_def fdiv_def
  by (rule rnd_eqI [where e = "- 7" and m = "5764607523034235"]) (simp_all add: pow2_def)

lemma f64_step_43: "fadd 1 (5764607523034235 / 576460752303423488) = 4548635623644201 / 4503599627370496"
  unfolding f64_def fadd_def fsub_def fmul_def fdiv_def
  by (rule rnd_eqI [where e = "0" and m = "4548635623644201"]) (simp_all add: pow2_def)

lemma f64_step_44: "fdiv (2137939276231111 / 137438953472) (4548635623644201 / 4503599627370496) = 8467086242499449 / 549755813888"
  unfolding f64_def fadd_def fsub_def fmul_def fdiv_def
  by (rule rnd_eqI [where e = "13" and m = "8467086242499449"]) (simp_all add: pow2_def)

lemma f64_step_45: "f64 (1 / 20) = 3602879701896397 / 72057594037927936"
  unfolding f64_def fadd_def fsub_def fmul_def fdiv_def
  by (rule rnd_eqI [where e = "- 5" and m = "7205759403792794"]) (simp_all add: pow2_def)

lemma f64_step_46: "fmul 10 (3602879701896397 / 72057594037927936) = 1 / 2"
  unfolding f64_def fadd_def fsub_def fmul_def fdiv_def
  by (rule rnd_eqI [where e = "- 1" and m = "4503599627370496"]) (simp_all add: pow2_def)

lemma f64_step_47: "fdiv (1 / 2) 100 = 5764607523034235 / 1152921504606846976"
  unfolding f64_def fadd_def fsub_def fmul_def fdiv_def
  by (rule rnd_eqI [where e = "- 8" and m = "5764607523034235"]) (simp_all add: pow2_def)

lemma f64_step_48: "fadd 1 (5764607523034235 / 1152921504606846976) = 1131529406376837 / 1125899906842624"
  unfolding f64_def fadd_def fsub_def fmul_def fdiv_def
  by (rule rnd_eqI [where e = "0" and m = "4526117625507348"]) (simp_all add: pow2_def)

lemma f64_step_49: "fdiv (6996892176756363 / 137438953472) (1131529406376837 / 1125899906842624) = 1740520441979195 / 34359738368"
  unfolding f64_def fadd_def fsub_def fmul_def fdiv_def
  by (rule rnd_eqI [where e = "15" and m = "6962081767916780"]) (simp_all add: pow2_def)

lemma f64_step_50: "fadd (8467086242499449 / 549755813888) (1740520441979195 / 34359738368) = 4539426664270821 / 68719476736"
  unfolding f64_def fadd_def fsub_def fmul_def fdiv_def
  by (rule rnd_eqI [where e = "16" and m = "4539426664270821"]) (simp_all add: pow2_def)

lemma f64_step_51: "fadd (4539426664270821 / 68719476736) 4000 = 4814304571214821 / 68719476736"
  unfolding f64_def fadd_def fsub_def fmul_def fdiv_def
  by (rule rnd_eqI [where e = "16" and m = "4814304571214821"]) (simp_all add: pow2_def)

lemma f64_step_52: "fadd (4814304571214821 / 68719476736) 4340 = 5112547100249061 / 68719476736"
  unfolding f64_def fadd_def fsub_def fmul_def fdiv_def
  by (rule rnd_eqI [where e = "16" and m = "5112547100249061"]) (simp_all add: pow2_def)

lemma f64_step_53: "fadd (5112547100249061 / 68719476736) 150 = 5122855021759461 / 68719476736"
  unfolding f64_def fadd_def fsub_def fmul_def fdiv_def
  by (rule rnd_eqI [where e = "16" and m = "5122855021759461"]) (simp_all add: pow2_def)

lemma f64_step_54: "fmul 0 1000000 = 0"
  by (simp add: f64_def fadd_def fsub_def fmul_def fdiv_def rnd_def)

lemma f64_step_55: "fadd (5122855021759461 / 68719476736) 0 = 5122855021759461 / 68719476736"
  unfolding f64_def fadd_def fsub_def fmul_def fdiv_def
  by (rule rnd_eqI [where e = "16" and m = "5122855021759461"]) (simp_all add: pow2_def)

lemma f64_step_56: "f64 (1 / 1000000) = 4722366482869645 / 4722366482869645213696"
  unfolding f64_def fadd_def fsub_def fmul_def fdiv_def
  by (rule rnd_eqI [where e = "- 20" and m = "4722366482869645"]) (simp_all add: pow2_def)

lemma f64_step_57: "fmul (5122855021759461 / 68719476736) (4722366482869645 / 4722366482869645213696) = 83932856676507 / 1125899906842624"
  unfolding f64_def fadd_def fsub_def fmul_def fdiv_def
  by (rule rnd_eqI [where e = "- 4" and m = "5371702827296448"]) (simp_all add: pow2_def)

lemma f64_step_58: "fmul (83932856676507 / 1125899906842624) (2246082353220813 / 2199023255552) = 1339515934521629 / 17592186044416"
  unfolding f64_def fadd_def fsub_def fmul_def fdiv_def
  by (rule rnd_eqI [where e = "6" and m = "5358063738086516"]) (simp_all add: pow2_def)

lemma f64_step_59: "f64 (981 / 100) = 5522539043063071 / 562949953421312"
  unfolding f64_def fadd_def fsub_def fmul_def fdiv_def
  by (rule rnd_eqI [where e = "3" and m = "5522539043063071"]) (simp_all add: pow2_def)

lemma f64_step_60: "fmul (1339515934521629 / 17592186044416) (5522539043063071 / 562949953421312) = 6570325658828591 / 8796093022208"
  unfolding f64_def fadd_def fsub_def fmul_def fdiv_def
  by (rule rnd_eqI [where e = "9" and m = "6570325658828591"]) (simp_all add: pow2_def)

lemma f64_step_61: "fadd 70 (5584463537939415 / 4503599627370496) = 5013069335216783 / 70368744177664"
  unfolding f64_def fadd_def fsub_def fmul_def fdiv_def
  by (rule rnd_eqI [where e = "6" and m = "5013069335216783"]) (simp_all add: pow2_def)

lemma f64_step_62: "fadd (5013069335216783 / 70368744177664) 0 = 5013069335216783 / 70368744177664"
  unfolding f64_def fadd_def fsub_def fmul_def fdiv_def
  by (rule rnd_eqI [where e = "6" and m = "5013069335216783"]) (simp_all add: pow2_def)

lemma f64_step_63: "fmul (5013069335216783 / 70368744177664) (5522539043063071 / 562949953421312) = 1536819068077395 / 2199023255552"
  unfolding f64_def fadd_def fsub_def fmul_def fdiv_def
  by (rule rnd_eqI [where e = "9" and m = "6147276272309580"]) (simp_all add: pow2_def)

lemma f64_step_64: "fsub (6570325658828591 / 8796093022208) (1536819068077395 / 2199023255552) = 423049386519011 / 8796093022208"
  unfolding f64_def fadd_def fsub_def fmul_def fdiv_def
  by (rule rnd_eqI [where e = "5" and m = "6768790184304176"]) (simp_all add: pow2_def)

lemma f64_step_65: "fdiv (423049386519011 / 8796093022208) (5522539043063071 / 562949953421312) = 1379977611478935 / 281474976710656"
  unfolding f64_def fadd_def fsub_def fmul_def fdiv_def
  by (rule rnd_eqI [where e = "2" and m = "5519910445915740"]) (simp_all add: pow2_def)

lemma f64_step_66: "fdiv (6490371073168535 / 649037107316853453566312041152512) 11340 = 4688634905766899 / 5316911983139663491615228241121378304"
  unfolding f64_def fadd_def fsub_def fmul_def fdiv_def
  by (rule rnd_eqI [where e = "- 70" and m = "4688634905766899"]) (simp_all add: pow2_def)

lemma f64_step_67: "fmul (4688634905766899 / 5316911983139663491615228241121378304) 1000000 = 2235715344317865 / 2535301200456458802993406410752"
  unfolding f64_def fadd_def fsub_def fmul_def fdiv_def
  by (rule rnd_eqI [where e = "- 51" and m = "8942861377271460"]) (simp_all add: pow2_def)

lemma f64_step_68: "fadd (5122855021759461 / 68719476736) (2235715344317865 / 2535301200456458802993406410752) = 5122855021759461 / 68719476736"
  unfolding f64_def fadd_def fsub_def fmul_def fdiv_def
  by (rule rnd_eqI [where e = "16" and m = "5122855021759461"]) (simp_all add: pow2_def)

lemma f64_step_69: "fadd (5013069335216783 / 70368744177664) (6490371073168535 / 649037107316853453566312041152512) = 5013069335216783 / 70368744177664"
  unfolding f64_def fadd_def fsub_def fmul_def fdiv_def
  by (rule rnd_eqI [where e = "6" and m = "5013069335216783"]) (simp_all add: pow2_def)

lemma f64_step_70: "fdiv (3377699720528049 / 1125899906842624) 11340 = 2440045512395571 / 9223372036854775808"
  unfolding f64_def fadd_def fsub_def fmul_def fdiv_def
  by (rule rnd_eqI [where e = "- 12" and m = "4880091024791142"]) (simp_all add: pow2_def)

lemma f64_step_71: "fmul (2440045512395571 / 9223372036854775808) 1000000 = 36359511500531 / 137438953472"
  unfolding f64_def fadd_def fsub_def fmul_def fdiv_def
  by (rule rnd_eqI [where e = "8" and m = "4654017472067968"]) (simp_all add: pow2_def)

lemma f64_step_72: "fadd (5122855021759461 / 68719476736) (36359511500531 / 137438953472) = 2570517388754863 / 34359738368"
  unfolding f64_def fadd_def fsub_def fmul_def fdiv_def
  by (rule rnd_eqI [where e = "16" and m = "5141034777509726"]) (simp_all add: pow2_def)

lemma f64_step_73: "fmul (2570517388754863 / 34359738368) (4722366482869645 / 4722366482869645213696) = 2695382841431019 / 36028797018963968"
  unfolding f64_def fadd_def fsub_def fmul_def fdiv_def
  by (rule rnd_eqI [where e = "- 4" and m = "5390765682862038"]) (simp_all add: pow2_def)

lemma f64_step_74: "fmul (2695382841431019 / 36028797018963968) (2246082353220813 / 2199023255552) = 5377078191870397 / 70368744177664"
  unfolding f64_def fadd_def fsub_def fmul_def fdiv_def
  by (rule rnd_eqI [where e = "6" and m = "5377078191870397"]) (simp_all add: pow2_def)

lemma f64_step_75: "fmul (5377078191870397 / 70368744177664) (5522539043063071 / 562949953421312) = 6593642132781075 / 8796093022208"
  unfolding f64_def fadd_def fsub_def fmul_def fdiv_def
  by (rule rnd_eqI [where e = "9" and m = "6593642132781075"]) (simp_all add: pow2_def)

lemma f64_step_76: "fadd (5013069335216783 / 70368744177664) (3377699720528049 / 1125899906842624) = 2612087783874893 / 35184372088832"
  unfolding f64_def fadd_def fsub_def fmul_def fdiv_def
  by (rule rnd_eqI [where e = "6" and m = "5224175567749786"]) (simp_all add: pow2_def)

lemma f64_step_77: "fmul (2612087783874893 / 35184372088832) (5522539043063071 / 562949953421312) = 6406145289953175 / 8796093022208"
  unfolding f64_def fadd_def fsub_def fmul_def fdiv_def
  by (rule rnd_eqI [where e = "9" and m = "6406145289953175"]) (simp_all add: pow2_def)

lemma f64_step_78: "fsub (6593642132781075 / 8796093022208) (6406145289953175 / 8796093022208) = 46874210706975 / 2199023255552"
  unfolding f64_def fadd_def fsub_def fmul_def fdiv_def
  by (rule rnd_eqI [where e = "4" and m = "5999898970492800"]) (simp_all add: pow2_def)

lemma f64_step_79: "fdiv (46874210706975 / 2199023255552) (5522539043063071 / 562949953421312) = 1223220992964893 / 562949953421312"
  unfolding f64_def fadd_def fsub_def fmul_def fdiv_def
  by (rule rnd_eqI [where e = "1" and m = "4892883971859572"]) (simp_all add: pow2_def)

lemma f64_step_80: "fdiv (6755399441056099 / 2251799813685248) 11340 = 4880091024791143 / 18446744073709551616"
  unfolding f64_def fadd_def fsub_def fmul_def fdiv_def
  by (rule rnd_eqI [where e = "- 12" and m = "4880091024791143"]) (simp_all add: pow2_def)

lemma f64_step_81: "fmul (4880091024791143 / 18446744073709551616) 1000000 = 4654017472067969 / 17592186044416"
  unfolding f64_def fadd_def fsub_def fmul_def fdiv_def
  by (rule rnd_eqI [where e = "8" and m = "4654017472067969"]) (simp_all add: pow2_def)

lemma f64_step_82: "fadd (5122855021759461 / 68719476736) (4654017472067969 / 17592186044416) = 5141034777509727 / 68719476736"
  unfolding f64_def fadd_def fsub_def fmul_def fdiv_def
  by (rule rnd_eqI [where e = "16" and m = "5141034777509727"]) (simp_all add: pow2_def)

lemma f64_step_83: "fmul (5141034777509727 / 68719476736) (4722366482869645 / 4722366482869645213696) = 5390765682862039 / 72057594037927936"
  unfolding f64_def fadd_def fsub_def fmul_def fdiv_def
  by (rule rnd_eqI [where e = "- 4" and m = "5390765682862039"]) (simp_all add: pow2_def)

lemma f64_step_84: "fmul (5390765682862039 / 72057594037927936) (2246082353220813 / 2199023255552) = 2688539095935199 / 35184372088832"
  unfolding f64_def fadd_def fsub_def fmul_def fdiv_def
  by (rule rnd_eqI [where e = "6" and m = "5377078191870398"]) (simp_all add: pow2_def)

lemma f64_step_85: "fmul (2688539095935199 / 35184372088832) (5522539043063071 / 562949953421312) = 1648410533195269 / 2199023255552"
  unfolding f64_def fadd_def fsub_def fmul_def fdiv_def
  by (rule rnd_eqI [where e = "9" and m = "6593642132781076"]) (simp_all add: pow2_def)

lemma f64_step_86: "fadd (5013069335216783 / 70368744177664) (6755399441056099 / 2251799813685248) = 2612087783874893 / 35184372088832"
  unfolding f64_def fadd_def fsub_def fmul_def fdiv_def
  by (rule rnd_eqI [where e = "6" and m = "5224175567749786"]) (simp_all add: pow2_def)

lemma f64_step_87: "fsub (1648410533195269 / 2199023255552) (6406145289953175 / 8796093022208) = 187496842827901 / 8796093022208"
  unfolding f64_def fadd_def fsub_def fmul_def fdiv_def
  by (rule rnd_eqI [where e = "4" and m = "5999898970492832"]) (simp_all add: pow2_def)

lemma f64_step_88: "fdiv (187496842827901 / 8796093022208) (5522539043063071 / 562949953421312) = 2446441985929799 / 1125899906842624"
  unfolding f64_def fadd_def fsub_def fmul_def fdiv_def
  by (rule rnd_eqI [where e = "1" and m = "4892883971859598"]) (simp_all add: pow2_def)

lemmas f64_steps =
    f64_step_1 f64_step_2 f64_step_3 f64_step_4 f64_step_5 f64_step_6
    f64_step_7 f64_step_8 f64_step_9 f64_step_10 f64_step_11 f64_step_12
    f64_step_13 f64_step_14 f64_step_15 f64_step_16 f64_step_17 f64_step_18
    f64_step_19 f64_step_20 f64_step_21 f64_step_22 f64_step_23 f64_step_24
    f64_step_25 f64_step_26 f64_step_27 f64_step_28 f64_step_29 f64_step_30
    f64_step_31 f64_step_32 f64_step_33 f64_step_34 f64_step_35 f64_step_36
    f64_step_37 f64_step_38 f64_step_39 f64_step_40 f64_step_41 f64_step_42
    f64_step_43 f64_step_44 f64_step_45 f64_step_46 f64_step_47 f64_step_48
    f64_step_49 f64_step_50 f64_step_51 f64_step_52 f64_step_53 f64_step_54
    f64_step_55 f64_step_56 f64_step_57 f64_step_58 f64_step_59 f64_step_60
    f64_step_61 f64_step_62 f64_step_63 f64_step_64 f64_step_65 f64_step_66
    f64_step_67 f64_step_68 f64_step_69 f64_step_70 f64_step_71 f64_step_72
    f64_step_73 f64_step_74 f64_step_75 f64_step_76 f64_step_77 f64_step_78
    f64_step_79 f64_step_80 f64_step_81 f64_step_82 f64_step_83 f64_step_84
    f64_step_85 f64_step_86 f64_step_87 f64_step_88

lemma density_f64: "get_salinity_and_density_f64 ''sea'' 22 = 2246082353220813 / 2199023255552"
  by (simp add: get_salinity_and_density_f64_def calculate_seawater_density_f64_def f64_steps)

lemma force_f64_at:
  "force_model_f64 (example_params_f64\<lparr>lead_weight := 0\<rparr>) full_lung 10 = Inr (1379977611478935 / 281474976710656)"
  "force_model_f64 (example_params_f64\<lparr>lead_weight := 6490371073168535 / 649037107316853453566312041152512\<rparr>) full_lung 10 = Inr (1379977611478935 / 281474976710656)"
  "force_model_f64 (example_params_f64\<lparr>lead_weight := 3377699720528049 / 1125899906842624\<rparr>) full_lung 10 = Inr (1223220992964893 / 562949953421312)"
  "force_model_f64 (example_params_f64\<lparr>lead_weight := 6755399441056099 / 2251799813685248\<rparr>) full_lung 10 = Inr (2446441985929799 / 1125899906842624)"
  by (simp_all add: force_model_f64_def net_force_kgf_f64_def store_density_f64_def
      get_salinity_and_density_f64_def calculate_seawater_density_f64_def
      example_params_f64_def example_lung_volumes_def Let_def f64_steps)

text \<open>
  The claim as stated fails in the arithmetic the code runs in. For the example
  parameters at depth 10 with full lungs, the lead weights 0 and 1e-17 give the same net
  force, and between the adjacent doubles 3.000000000000157 and 3.0000000000001577 the
  net force rises, from 2.1728769769511533 to 2.172876976951165.
\<close>

theorem lead_weight_rounding_counterexample:
  "(0::real) \<le> 10
   \<and> get_salinity_and_density_f64 (water_type example_params_f64)
        (temperature example_params_f64) < 11340
   \<and> (0::real) < f64 (1 / 100000000000000000)
   \<and> force_model_f64 (example_params_f64\<lparr>lead_weight := 0\<rparr>) full_lung 10
       = force_model_f64
           (example_params_f64\<lparr>lead_weight := f64 (1 / 100000000000000000)\<rparr>) full_lung 10
   \<and> f64 3.000000000000157 < f64 3.0000000000001577
   \<and> force_model_f64 (example_params_f64\<lparr>lead_weight := f64 3.000000000000157\<rparr>)
        full_lung 10 = Inr (1223220992964893 / 562949953421312)
   \<and> force_model_f64 (example_params_f64\<lparr>lead_weight := f64 3.0000000000001577\<rparr>)
        full_lung 10 = Inr (2446441985929799 / 1125899906842624)
   \<and> (1223220992964893 / 562949953421312 :: real) < 2446441985929799 / 1125899906842624"
proof -
  have d: "get_salinity_and_density_f64 (water_type example_params_f64)
             (temperature example_params_f64) < 11340"
    by (simp add: example_params_f64_def density_f64)
  show ?thesis
    using d by (simp add: f64_step_1 f64_step_2 f64_step_3 force_f64_at)
qed

subsection \<open>Force profile generator\<close>

lemma plot_state: "fst (plot_net_force_kgf p) = store_density p"
  by (simp add: plot_net_force_kgf_def Let_def)

lemma net_force_kgf_ok:
  assumes "wetsuit_density p \<noteq> 0" and "seawater_density p \<noteq> None"
  shows "\<exists>f. net_force_kgf p w lv d = Inr f"
proof (cases "d < 0")
  case True
  then show ?thesis by (simp add: net_force_kgf_def)
next
  case False
  obtain rho where "seawater_density p = Some rho" using assms(2) by blast
  then have "\<forall>e. net_force_kgf p w lv d \<noteq> Inl e"
    using False assms(1) by (simp add: net_force_kgf_def Let_def)
  then show ?thesis by (cases "net_force_kgf p w lv d") auto
qed

lemma net_forces_loop_ok:
  assumes "wetsuit_density p \<noteq> 0" and "seawater_density p \<noteq> None"
  shows "\<exists>fs. net_forces_loop p w lv ds = Inr fs \<and> length fs = length ds
           \<and> (\<forall>i<length ds. net_force_kgf p w lv (ds ! i) = Inr (fs ! i))"
proof (induction ds)
  case Nil
  then show ?case by simp
next
  case (Cons d ds)
  obtain f where f: "net_force_kgf p w lv d = Inr f"
    using net_force_kgf_ok [OF assms] by blast
  obtain fs where fs: "net_forces_loop p w lv ds = Inr fs" "length fs = length ds"
    "\<forall>i<length ds. net_force_kgf p w lv (ds ! i) = Inr (fs ! i)"
    using Cons.IH by blast
  have "net_forces_loop p w lv (d # ds) = Inr (f # fs)" using f fs by simp
  moreover have "\<forall>i<length (d # ds). net_force_kgf p w lv ((d # ds) ! i) = Inr ((f # fs) ! i)"
    using f fs by (auto simp: nth_Cons split: nat.splits)
  ultimately show ?case using fs(2) by simp
qed

lemma net_forces_loop_zero_density:
  assumes "wetsuit_density p = 0" and "0 \<le> d"
  shows "net_forces_loop p w lv (d # ds) = Inl ZeroDivisionError"
  using assms by (simp add: net_force_kgf_def Let_def)

lemma length_linspace: "length (linspace a b n) = n"
  by (simp add: linspace_def)

text \<open>
  With a non-zero wetsuit density the generator returns the grid of 500 depths and, for
  each lung condition, the force model's value at each of them.
\<close>

lemma plot_returns:
  assumes "wetsuit_density p \<noteq> 0"
  shows "\<exists>curves. snd (plot_net_force_kgf p) = Inr (linspace 0 (fst (y_limits p)) 500, curves)
           \<and> (\<forall>c. length (curves c) = 500
                \<and> (\<forall>i<500. force_model p c (linspace 0 (fst (y_limits p)) 500 ! i) = Inr (curves c ! i)))"
proof -
  let ?q = "store_density p"
  let ?w = "wetsuit_compressibility_factor p / 100"
  let ?ds = "linspace 0 (fst (y_limits p)) 500"
  have q: "wetsuit_density ?q \<noteq> 0" "seawater_density ?q \<noteq> None"
    using assms by (simp_all add: store_density_def)
  have ex: "\<exists>fs. net_forces_loop ?q ?w (lung_volumes p c) ?ds = Inr fs \<and> length fs = 500
           \<and> (\<forall>i<500. force_model p c (?ds ! i) = Inr (fs ! i))" for c
    using net_forces_loop_ok [OF q, of ?w "lung_volumes p c" ?ds]
    by (simp add: length_linspace force_model_def)
  obtain f1 where f1: "net_forces_loop ?q ?w (lung_volumes p full_lung) ?ds = Inr f1" "length f1 = 500"
    "\<forall>i<500. force_model p full_lung (?ds ! i) = Inr (f1 ! i)" using ex [of full_lung] by blast
  obtain f2 where f2: "net_forces_loop ?q ?w (lung_volumes p medium_lung) ?ds = Inr f2" "length f2 = 500"
    "\<forall>i<500. force_model p medium_lung (?ds ! i) = Inr (f2 ! i)" using ex [of medium_lung] by blast
  obtain f3 where f3: "net_forces_loop ?q ?w (lung_volumes p empty_lung) ?ds = Inr f3" "length f3 = 500"
    "\<forall>i<500. force_model p empty_lung (?ds ! i) = Inr (f3 ! i)" using ex [of empty_lung] by blast
  let ?curves = "\<lambda>c. case c of full_lung \<Rightarrow> f1 | medium_lung \<Rightarrow> f2 | empty_lung \<Rightarrow> f3"
  have lv: "lung_volumes ?q = lung_volumes p"
    "wetsuit_compressibility_factor ?q = wetsuit_compressibility_factor p"
    "y_limits ?q = y_limits p"
    by (simp_all add: store_density_def)
  have "snd (plot_net_force_kgf p) = Inr (?ds, ?curves)"
    unfolding plot_net_force_kgf_def Let_def net_force_curves_def lv
    using f1(1) f2(1) f3(1) by simp
  moreover have "\<forall>c. length (?curves c) = 500
                   \<and> (\<forall>i<500. force_model p c (?ds ! i) = Inr (?curves c ! i))"
  proof
    fix c show "length (?curves c) = 500 \<and> (\<forall>i<500. force_model p c (?ds ! i) = Inr (?curves c ! i))"
      using f1 f2 f3 by (cases c) simp_all
  qed
  ultimately show ?thesis by blast
qed




subsection \<open>Energy integrator\<close>

lemma bool_index_self: "bool_index xs (map P xs) = Inr (filter P xs)"
proof -
  have "map fst (filter snd (zip xs (map P xs))) = filter P xs"
    by (induction xs) auto
  then show ?thesis by (simp add: bool_index_def)
qed

lemma mask_zip_fst:
  "length ds = length fs \<Longrightarrow>
   filter P ds = map fst (filter (\<lambda>(d, f). P d) (zip ds fs))"
  by (induction ds fs rule: list_induct2) auto

lemma mask_zip_snd:
  "length ds = length fs \<Longrightarrow>
   map fst (filter snd (zip fs (map P ds))) = map snd (filter (\<lambda>(d, f). P d) (zip ds fs))"
  by (induction ds fs rule: list_induct2) auto

lemma bool_index_other:
  "length ds = length fs \<Longrightarrow>
   bool_index fs (map P ds) = Inr (map snd (filter (\<lambda>(d, f). P d) (zip ds fs)))"
  by (simp add: bool_index_def mask_zip_snd)

lemma upt_shift: "[0..<Suc n] = 0 # map Suc [0..<n]"
  by (simp add: upt_conv_Cons map_Suc_upt del: upt_Suc)

lemma downward_spec:
  "map (\<lambda>w. w / 3600) (downward_work (map fst ps) (map snd ps)) = spec_descent ps"
proof (induction ps rule: spec_descent.induct)
  case (1 d1 f1 d2 f2 rest)
  have "downward_work (map fst ((d1, f1) # (d2, f2) # rest)) (map snd ((d1, f1) # (d2, f2) # rest))
        = (if f1 * 9.81 > 0 then f1 * 9.81 * \<bar>d2 - d1\<bar> else 0)
          # downward_work (map fst ((d2, f2) # rest)) (map snd ((d2, f2) # rest))"
    unfolding downward_work_def
    by (simp add: upt_shift Let_def comp_def del: upt_Suc)
  then show ?case using 1 by simp
qed (simp_all add: downward_work_def)

lemma upward_work_rev: "upward_work rd rf = rev (upward_fwd rd rf)"
proof -
  have "[1..<length rd] = map Suc [0..<length rd - 1]"
    by (cases rd) (simp_all add: map_Suc_upt del: upt_Suc)
  then show ?thesis
    unfolding upward_work_def upward_fwd_def by (simp add: rev_map comp_def del: upt_Suc)
qed

lemma upward_fwd_spec:
  "map (\<lambda>w. w / 3600) (upward_fwd (map fst ps) (map snd ps)) = spec_ascent_pairs ps"
proof (induction ps rule: spec_ascent_pairs.induct)
  case (1 d1 f1 d2 f2 rest)
  have "upward_fwd (map fst ((d1, f1) # (d2, f2) # rest)) (map snd ((d1, f1) # (d2, f2) # rest))
        = (if f2 * 9.81 < 0 then \<bar>f2 * 9.81 * (d2 - d1)\<bar> else 0)
          # upward_fwd (map fst ((d2, f2) # rest)) (map snd ((d2, f2) # rest))"
    unfolding upward_fwd_def
    by (simp add: upt_shift Let_def comp_def del: upt_Suc)
  then show ?case using 1 by simp
qed (simp_all add: upward_fwd_def)

lemma upward_spec:
  "map (\<lambda>w. w / 3600) (upward_work (map fst ps) (map snd ps)) = rev (spec_ascent_pairs ps)"
  by (simp add: upward_work_rev rev_map [symmetric] upward_fwd_spec)

lemma cumsum_from_prefix_sums:
  "s # cumsum_from s xs = map (\<lambda>k. s + sum_list (take k xs)) [0..<Suc (length xs)]"
proof (induction xs arbitrary: s)
  case Nil
  then show ?case by simp
next
  case (Cons x xs)
  have "map (\<lambda>k. s + sum_list (take k (x # xs))) [0..<Suc (length (x # xs))]
        = s # map (\<lambda>k. (s + x) + sum_list (take k xs)) [0..<Suc (length xs)]"
    by (subst upt_shift) (simp add: comp_def add.assoc del: upt_Suc)
  then show ?case using Cons [of "s + x"] by simp
qed

lemma cumulative_energy_wh_spec:
  assumes len: "length ds = length fs" and ne: "in_range ds t \<noteq> []"
  shows "cumulative_energy_wh ds fs t = Inr (spec_cumulative (zip ds fs) t)"
proof -
  let ?ps = "filter (\<lambda>(d, f). d \<le> t) (zip ds fs)"
  have rd: "filter (\<lambda>d. d \<le> t) ds = map fst ?ps"
    using len by (rule mask_zip_fst)
  have ne': "map fst ?ps \<noteq> []" using ne rd by (simp add: in_range_def)
  have incs: "map (\<lambda>w. w / 3600)
                (downward_work (map fst ?ps) (map snd ?ps) @ upward_work (map fst ?ps) (map snd ?ps))
              = spec_increments (zip ds fs) t"
    by (simp add: spec_increments_def Let_def downward_spec upward_spec)
  have "cumulative_energy_wh ds fs t
        = Inr (0 # cumsum (map (\<lambda>w. w / 3600)
                (downward_work (map fst ?ps) (map snd ?ps) @ upward_work (map fst ?ps) (map snd ?ps))))"
    unfolding cumulative_energy_wh_def Let_def bool_index_self bool_index_other [OF len] rd
    using ne' by simp
  also have "\<dots> = Inr (spec_cumulative (zip ds fs) t)"
    unfolding incs cumsum_def spec_cumulative_def
    by (simp only: cumsum_from_prefix_sums) simp
  finally show ?thesis .
qed


lemma cumsum_from_ge:
  "\<forall>x\<in>set xs. 0 \<le> x \<Longrightarrow> \<forall>y\<in>set (cumsum_from s xs). s \<le> y"
proof (induction xs arbitrary: s)
  case Nil
  then show ?case by simp
next
  case (Cons x xs)
  have "\<forall>y\<in>set (cumsum_from (s + x) xs). s + x \<le> y"
    using Cons.IH [of "s + x"] Cons.prems by simp
  moreover have "0 \<le> x" using Cons.prems by simp
  ultimately show ?case by fastforce
qed

lemma cumsum_from_sorted:
  "\<forall>x\<in>set xs. 0 \<le> x \<Longrightarrow> sorted (s # cumsum_from s xs)"
proof (induction xs arbitrary: s)
  case Nil
  then show ?case by simp
next
  case (Cons x xs)
  have "sorted ((s + x) # cumsum_from (s + x) xs)"
    using Cons.IH [of "s + x"] Cons.prems by simp
  moreover have "\<forall>y\<in>set (cumsum_from s (x # xs)). s \<le> y"
    using cumsum_from_ge [OF Cons.prems] .
  ultimately show ?case by simp
qed

lemma downward_work_nonneg: "\<forall>x\<in>set (downward_work rd rf). 0 \<le> x"
  by (auto simp: downward_work_def Let_def)

lemma upward_work_nonneg: "\<forall>x\<in>set (upward_work rd rf). 0 \<le> x"
  by (auto simp: upward_work_def Let_def)

lemma cumulative_energy_wh_cases:
  "cumulative_energy_wh ds fs t = Inr cum \<Longrightarrow>
   \<exists>deltas. (\<forall>x\<in>set deltas. 0 \<le> x) \<and> cum = 0 # cumsum_from 0 deltas"
proof -
  assume a: "cumulative_energy_wh ds fs t = Inr cum"
  let ?rd = "filter (\<lambda>d. d \<le> t) ds"
  obtain rf where rf: "bool_index fs (map (\<lambda>d. d \<le> t) ds) = Inr rf" and ne: "?rd \<noteq> []"
    using a unfolding cumulative_energy_wh_def Let_def bool_index_self
    by (auto split: sum.splits if_splits)
  let ?deltas = "map (\<lambda>w. w / 3600) (downward_work ?rd rf @ upward_work ?rd rf)"
  have "cum = 0 # cumsum_from 0 ?deltas"
    using a rf ne unfolding cumulative_energy_wh_def Let_def bool_index_self cumsum_def
    by simp
  moreover have "\<forall>x\<in>set ?deltas. 0 \<le> x"
    using downward_work_nonneg [of ?rd rf] upward_work_nonneg [of ?rd rf] by auto
  ultimately show ?thesis by blast
qed

lemma energy_single_point:
  assumes "length ds = length fs" and "length (in_range ds t) = 1"
  shows "energy_of_curve ds fs t = Inr 0"
proof -
  let ?ps = "filter (\<lambda>(d, f). d \<le> t) (zip ds fs)"
  have rd: "filter (\<lambda>d. d \<le> t) ds = map fst ?ps"
    using assms(1) by (rule mask_zip_fst)
  have l: "length ?ps = 1" using assms(2) rd by (simp add: in_range_def)
  then obtain q where q: "?ps = [q]" by (cases ?ps) auto
  have "cumulative_energy_wh ds fs t = Inr [0]"
    unfolding cumulative_energy_wh_def Let_def bool_index_self bool_index_other [OF assms(1)] rd q
    by (simp add: downward_work_def upward_work_def cumsum_def)
  then show ?thesis by (simp add: energy_of_curve_def)
qed

lemma energy_empty_range:
  assumes "length ds = length fs" and "in_range ds t = []"
  shows "energy_of_curve ds fs t = Inl IndexError"
  using assms unfolding energy_of_curve_def cumulative_energy_wh_def Let_def bool_index_self
    bool_index_other [OF assms(1)] in_range_def
  by simp


lemma energy_returns_iff:
  assumes "length ds = length fs"
  shows "(\<exists>e. energy_of_curve ds fs t = Inr e) \<longleftrightarrow> in_range ds t \<noteq> []"
proof
  assume "\<exists>e. energy_of_curve ds fs t = Inr e"
  then show "in_range ds t \<noteq> []"
    using energy_empty_range [OF assms, of t] by auto
next
  assume "in_range ds t \<noteq> []"
  then show "\<exists>e. energy_of_curve ds fs t = Inr e"
    using cumulative_energy_wh_spec [OF assms] by (simp add: energy_of_curve_def)
qed

lemma cumulative_energy_wh_invariant:
  assumes "cumulative_energy_wh ds fs t = Inr cum"
  shows "cum \<noteq> [] \<and> hd cum = 0 \<and> (\<forall>i. Suc i < length cum \<longrightarrow> cum ! i \<le> cum ! Suc i)
         \<and> energy_of_curve ds fs t = Inr (last cum) \<and> 0 \<le> last cum"
proof -
  obtain deltas where d: "\<forall>x\<in>set deltas. 0 \<le> x" and c: "cum = 0 # cumsum_from 0 deltas"
    using cumulative_energy_wh_cases [OF assms] by blast
  have s: "sorted cum" unfolding c using d by (rule cumsum_from_sorted)
  have ne: "cum \<noteq> []" and h: "hd cum = 0" using c by simp_all
  have step: "\<forall>i. Suc i < length cum \<longrightarrow> cum ! i \<le> cum ! Suc i"
    using s by (simp add: sorted_iff_nth_Suc)
  have "cum ! 0 \<le> cum ! (length cum - 1)"
    using s ne by (intro sorted_nth_mono) simp_all
  then have l: "0 \<le> last cum" using ne h by (simp add: last_conv_nth hd_conv_nth)
  have e: "energy_of_curve ds fs t = Inr (last cum)"
    using assms by (simp add: energy_of_curve_def)
  show ?thesis using ne h step e l by blast
qed

lemma linspace_nonneg:
  assumes "0 \<le> b"
  shows "\<forall>d\<in>set (linspace 0 b n). 0 \<le> d"
  using assms by (auto simp: linspace_def)

lemma in_range_below_grid:
  assumes "0 \<le> b" and "t < 0"
  shows "in_range (linspace 0 b n) t = []"
  using linspace_nonneg [OF assms(1), of n] assms(2)
  by (auto simp: in_range_def filter_empty_conv)

lemma energy_use_curve:
  assumes "wetsuit_density p \<noteq> 0"
  shows "\<exists>fs. length fs = 500
           \<and> snd (energy_use p depth c) = energy_of_curve (linspace 0 (fst (y_limits p)) 500) fs depth"
proof -
  obtain curves where c: "snd (plot_net_force_kgf p) = Inr (linspace 0 (fst (y_limits p)) 500, curves)"
    and l: "\<forall>c. length (curves c) = 500"
    using plot_returns [OF assms] by blast
  have "snd (energy_use p depth c) = energy_of_curve (linspace 0 (fst (y_limits p)) 500) (curves c) depth"
    using c by (cases "plot_net_force_kgf p") (simp add: energy_use_def)
  then show ?thesis using l by blast
qed

text \<open>A target depth above the surface: no depth of the grid from 0 is within range.\<close>

lemma energy_use_above_surface:
  assumes "wetsuit_density p \<noteq> 0" and "0 \<le> fst (y_limits p)" and "depth < 0"
  shows "snd (energy_use p depth c) = Inl IndexError"
proof -
  obtain fs where fs: "length fs = 500"
    "snd (energy_use p depth c) = energy_of_curve (linspace 0 (fst (y_limits p)) 500) fs depth"
    using energy_use_curve [OF assms(1)] by blast
  have "length (linspace 0 (fst (y_limits p)) 500) = length fs"
    using fs(1) by (simp add: length_linspace)
  then show ?thesis
    using energy_empty_range in_range_below_grid [OF assms(2,3)] fs(2) by simp
qed

lemma energy_use_state: "fst (energy_use p depth c) = store_density p"
  using plot_state [of p]
  by (cases "plot_net_force_kgf p") (auto simp: energy_use_def split: sum.splits)

lemma energy_use_nonneg:
  assumes "snd (energy_use p depth c) = Inr e"
  shows "0 \<le> e"
proof (cases "plot_net_force_kgf p")
  case (Pair q r)
  show ?thesis
  proof (cases r)
    case (Inl err)
    then show ?thesis using assms Pair by (simp add: energy_use_def)
  next
    case (Inr dc)
    obtain ds curves where dc: "dc = (ds, curves)" by (cases dc)
    have e: "energy_of_curve ds (curves c) depth = Inr e"
      using assms Pair Inr dc by (simp add: energy_use_def)
    then obtain cum where cum: "cumulative_energy_wh ds (curves c) depth = Inr cum"
      by (auto simp: energy_of_curve_def split: sum.splits)
    show ?thesis using cumulative_energy_wh_invariant [OF cum] e by simp
  qed
qed

text \<open>
  Claim C2, as amended. For every force curve and every target depth with at least one
  grid depth within range, the integrator's cumulative sequence is the running sum, from
  0, of the specification's increments in watt-hours (descent over consecutive pairs with
  the force at the shallower point when positive, then ascent over the same pairs in
  reverse with the force at the deeper point when negative), and the returned scalar is
  its last value. For a target depth with no grid depth within range the integrator
  returns no total.
\<close>

theorem energy_integrator_total:
  assumes "length ds = length fs"
  shows "(in_range ds t \<noteq> [] \<longrightarrow>
            cumulative_energy_wh ds fs t = Inr (spec_cumulative (zip ds fs) t)
            \<and> energy_of_curve ds fs t = Inr (spec_total_energy (zip ds fs) t))
         \<and> (\<forall>e. energy_of_curve ds fs t = Inr e \<longrightarrow> e = spec_total_energy (zip ds fs) t)"
proof -
  have a: "cumulative_energy_wh ds fs t = Inr (spec_cumulative (zip ds fs) t)
           \<and> energy_of_curve ds fs t = Inr (spec_total_energy (zip ds fs) t)"
    if "in_range ds t \<noteq> []"
    using cumulative_energy_wh_spec [OF assms that]
    by (simp add: energy_of_curve_def spec_total_energy_def)
  have "e = spec_total_energy (zip ds fs) t" if "energy_of_curve ds fs t = Inr e" for e
  proof -
    have "in_range ds t \<noteq> []" using that energy_returns_iff [OF assms, of t] by blast
    then show ?thesis using a that by simp
  qed
  then show ?thesis using a by blast
qed

theorem energy_integrator_total_witness:
  "length [0, 1, 2, 3 :: real] = length [2, 1, -1, -2 :: real]
   \<and> in_range [0, 1, 2, 3] 2 \<noteq> []
   \<and> spec_cumulative (zip [0, 1, 2, 3] [2, 1, -1, -2]) 2
       = [0, 109 / 20000, 327 / 40000, 109 / 10000, 109 / 10000]
   \<and> cumulative_energy_wh [0, 1, 2, 3] [2, 1, -1, -2] 2
       = Inr [0, 109 / 20000, 327 / 40000, 109 / 10000, 109 / 10000]
   \<and> energy_of_curve [0, 1, 2, 3] [2, 1, -1, -2] 2 = Inr (109 / 10000)"
proof -
  have c: "spec_cumulative (zip [0, 1, 2, 3] [2, 1, -1, -2]) 2
           = [0, 109 / 20000, 327 / 40000, 109 / 10000, 109 / 10000]"
    by (simp add: spec_cumulative_def spec_increments_def upt_conv_Cons)
  have r: "in_range [0, 1, 2, 3] 2 \<noteq> []" by (simp add: in_range_def)
  show ?thesis
    using energy_integrator_total [of "[0, 1, 2, 3]" "[2, 1, -1, -2]" 2] r c
    by (simp add: spec_total_energy_def)
qed

text \<open>
  The claim as stated fails: for a target depth below the grid the specification's
  running sum is 0, and the integrator raises \<^verbatim>\<open>IndexError\<close>.
\<close>

theorem energy_total_empty_range_counterexample:
  "in_range [1, 2] 0 = [] \<and> spec_total_energy (zip [1, 2] [3, -3]) 0 = 0
   \<and> energy_of_curve [1, 2] [3, -3] 0 = Inl IndexError"
  by (simp add: in_range_def spec_total_energy_def spec_cumulative_def spec_increments_def
      energy_of_curve_def cumulative_energy_wh_def bool_index_def)

text \<open>
  Claim C3. For every force curve and target depth, the cumulative energy sequence the
  integrator builds is non-empty, starts at 0 and is non-decreasing at every step, and
  the returned total is its last element and is at least 0.
\<close>

theorem energy_integrator_invariant:
  assumes "cumulative_energy_wh ds fs t = Inr cum"
  shows "cum \<noteq> [] \<and> hd cum = 0 \<and> (\<forall>i. Suc i < length cum \<longrightarrow> cum ! i \<le> cum ! Suc i)
         \<and> energy_of_curve ds fs t = Inr (last cum) \<and> 0 \<le> last cum"
  using cumulative_energy_wh_invariant [OF assms] .

theorem energy_integrator_invariant_witness:
  "cumulative_energy_wh [0, 1, 2] [3, -1, -4] 2 = Inr [0, 327 / 40000, 327 / 40000, 763 / 40000, 109 / 5000]
   \<and> hd [0, 327 / 40000, 327 / 40000, 763 / 40000, 109 / 5000 :: real] = 0
   \<and> energy_of_curve [0, 1, 2] [3, -1, -4] 2 = Inr (109 / 5000)"
proof -
  have c: "cumulative_energy_wh [0, 1, 2] [3, -1, -4] 2
           = Inr [0, 327 / 40000, 327 / 40000, 763 / 40000, 109 / 5000]"
    by (simp add: cumulative_energy_wh_def bool_index_def downward_work_def upward_work_def
        cumsum_def upt_conv_Cons)
  show ?thesis
    using energy_integrator_invariant [OF c] c by simp
qed

text \<open>
  Claim C5, as amended. A target depth with exactly one grid depth within range gives
  zero energy. A target depth with no grid depth within range, such as one below the
  grid's minimum, does not: line 18 reads \<^verbatim>\<open>relevant_depths[0]\<close> of the empty array
  and raises \<^verbatim>\<open>IndexError\<close>.
\<close>

theorem energy_degenerate_range:
  assumes "length ds = length fs"
  shows "(length (in_range ds t) = 1 \<longrightarrow> energy_of_curve ds fs t = Inr 0)
         \<and> (in_range ds t = [] \<longrightarrow> energy_of_curve ds fs t = Inl IndexError)"
  using energy_single_point [OF assms] energy_empty_range [OF assms] by blast

theorem energy_degenerate_range_witness:
  "length [0, 1 :: real] = length [5, 5 :: real]
   \<and> length (in_range [0, 1] (1 / 2)) = 1 \<and> energy_of_curve [0, 1] [5, 5] (1 / 2) = Inr 0
   \<and> in_range [3, 4] 2 = [] \<and> energy_of_curve [3, 4] [5, 5] 2 = Inl IndexError"
  using energy_degenerate_range [of "[0, 1]" "[5, 5]" "1 / 2"]
    energy_degenerate_range [of "[3, 4]" "[5, 5]" 2]
  by (simp add: in_range_def)

text \<open>
  The claim as stated fails: below the grid's minimum fewer than two grid depths are
  within range and the integrator raises instead of returning zero.
\<close>

theorem energy_below_grid_counterexample:
  "length (in_range [0, 1] (-1)) < 2 \<and> energy_of_curve [0, 1] [5, 5] (-1) = Inl IndexError
   \<and> snd (energy_use example_params (-1) full_lung) = Inl IndexError"
proof -
  have a: "wetsuit_density example_params \<noteq> 0" "0 \<le> fst (y_limits example_params)"
    by (simp_all add: example_params_def)
  have "snd (energy_use example_params (-1) full_lung) = Inl IndexError"
    using energy_use_above_surface [OF a, of "-1" full_lung] by simp
  then show ?thesis
    by (simp add: in_range_def energy_of_curve_def cumulative_energy_wh_def bool_index_def)
qed

subsection \<open>Weight optimiser\<close>



text \<open>Every earlier element is strictly larger: \<open>argmin\<close> is the first least index.\<close>

lemma argmin_first: "i < argmin xs \<Longrightarrow> xs ! argmin xs < xs ! i"
proof (induction xs arbitrary: i rule: argmin.induct)
  case 1
  then show ?case by simp
next
  case (2 x)
  then show ?case by simp
next
  case (3 x y ys)
  show ?case
  proof (cases i)
    case 0
    then show ?thesis using 3(2) by (auto simp: Let_def split: if_splits)
  next
    case (Suc j)
    then have "j < argmin (y # ys)" using 3(2) by (auto simp: Let_def split: if_splits)
    then have "(y # ys) ! argmin (y # ys) < (y # ys) ! j" using 3(1) by simp
    then show ?thesis using Suc 3(2) by (auto simp: Let_def split: if_splits)
  qed
qed


lemma optimum_empty: "optimum polyfit ws [] = Inl ValueError"
  by (simp add: optimum_def np_argmin_def)



text \<open>An empty sweep: the loop leaves the energies empty and line 114 raises.\<close>

lemma energy_vs_weight_empty: "energy_vs_weight polyfit p depth (Some []) = Inl ValueError"
  by (simp add: energy_vs_weight_def result_for_def optimum_empty)




subsection \<open>Depth sweep driver\<close>

lemma length_arange: "length (arange a b s) = nat \<lceil>(b - a) / s\<rceil>"
  by (simp add: arange_def)

lemma length_sweep_depths: "length (sweep_depths m) = nat \<lceil>2 * m\<rceil>"
  by (simp add: sweep_depths_def arange_def mult.commute)

lemma sweep_depths_nth: "i < length (sweep_depths m) \<Longrightarrow> sweep_depths m ! i = 1 + real i / 2"
  by (simp add: sweep_depths_def arange_def)

text \<open>For every positive maximum depth the deepest depth swept exceeds it by at least 0.5.\<close>

lemma sweep_depths_last:
  assumes "0 < m"
  shows "sweep_depths m \<noteq> [] \<and> m + 1 / 2 \<le> last (sweep_depths m)"
proof -
  define n where "n = length (sweep_depths m)"
  have nn: "n = nat \<lceil>2 * m\<rceil>" by (simp add: n_def length_sweep_depths)
  have "0 < n" using assms by (simp add: nn)
  then obtain k where k: "n = Suc k" by (cases n) auto
  have ne: "sweep_depths m \<noteq> []" using k n_def by auto
  have "last (sweep_depths m) = sweep_depths m ! k"
    using ne k n_def by (simp add: last_conv_nth)
  also have "\<dots> = 1 + real k / 2"
    using k n_def by (intro sweep_depths_nth) simp
  finally have l: "last (sweep_depths m) = 1 + real k / 2" .
  have "2 * m \<le> real_of_int \<lceil>2 * m\<rceil>" by (rule le_of_int_ceiling)
  also have "\<dots> = real n" using assms by (simp add: nn)
  also have "\<dots> = real k + 1" using k by simp
  finally have "m + 1 / 2 \<le> 1 + real k / 2" by simp
  then show ?thesis using ne l by simp
qed

lemma sweep_loop_length:
  "sweep_loop polyfit p ds = Inr ow \<Longrightarrow> length (ow c) = length ds"
proof (induction ds arbitrary: ow)
  case Nil
  then show ?case by auto
next
  case (Cons d ds)
  then show ?case by (auto split: sum.splits)
qed

text \<open>Each optimal-weight sequence has one entry per depth swept.\<close>

lemma optimal_weight_vs_depth_length:
  "optimal_weight_vs_depth polyfit p m = Inr ow \<Longrightarrow> length (ow c) = length (sweep_depths m)"
  by (simp add: optimal_weight_vs_depth_def sweep_loop_length)

text \<open>
  Claim C6. For the maximum depth 50 the driver sweeps 100 depths, from 1 in steps of
  0.5; the last is 50.5, which exceeds the maximum depth.
\<close>

theorem sweep_depths_exceed_max_depth:
  "length (sweep_depths 50) = 100 \<and> hd (sweep_depths 50) = 1
   \<and> last (sweep_depths 50) = 50.5 \<and> (50::real) < 50.5"
proof -
  have l: "length (sweep_depths 50) = 100" by (simp add: length_sweep_depths)
  then have ne: "sweep_depths 50 \<noteq> []" by auto
  have "last (sweep_depths 50) = sweep_depths 50 ! 99"
    using l by (simp add: last_conv_nth [OF ne])
  also have "\<dots> = 50.5" using l by (simp add: sweep_depths_nth)
  finally have la: "last (sweep_depths 50) = 50.5" .
  have "hd (sweep_depths 50) = sweep_depths 50 ! 0" using ne by (simp add: hd_conv_nth)
  also have "\<dots> = 1" using l by (simp add: sweep_depths_nth)
  finally show ?thesis using l la by simp
qed

end
